theory Spec2Isabelle
  imports Main
begin

section \<open>JavaScript values\<close>

text \<open>
  The lead-generation route handler works on untyped JSON data (\<^verbatim>\<open>person: any\<close>,
  \<^verbatim>\<open>JSON.parse(content)\<close>), so raw records are modelled as JavaScript values.
  An object is an association list in insertion order; a property read finds the
  first binding of the key and yields \<open>undefined\<close> when there is none.
  Strings are lists of code units below 256; numbers are the integer-valued ones
  (only their being zero and their rendering as a string are ever used).
\<close>

datatype jsval =
    JUndefined
  | JNull
  | JBool bool
  | JNum int
  | JStr string
  | JArr "jsval list"
  | JObj "(string \<times> jsval) list"

type_synonym jsobj = "(string \<times> jsval) list"

text \<open>An exception: an \<^verbatim>\<open>Error\<close> instance with its message (this covers the
  engine's TypeError and SyntaxError and the rejections of \<^verbatim>\<open>fetch\<close>), or any
  other thrown value.\<close>

datatype exn = Error string | NonError

text \<open>ToBoolean, as used by \<^verbatim>\<open>||\<close>, \<^verbatim>\<open>!\<close> and \<^verbatim>\<open>if\<close>.\<close>

fun truthy :: "jsval \<Rightarrow> bool" where
  "truthy JUndefined = False"
| "truthy JNull = False"
| "truthy (JBool b) = b"
| "truthy (JNum n) = (n \<noteq> 0)"
| "truthy (JStr s) = (s \<noteq> [])"
| "truthy (JArr xs) = True"
| "truthy (JObj fs) = True"

text \<open>\<^verbatim>\<open>a || b\<close>\<close>

definition js_or :: "jsval \<Rightarrow> jsval \<Rightarrow> jsval" where
  "js_or a b = (if truthy a then a else b)"

text \<open>A property read on an object literal or a parsed JSON object.\<close>

definition obj_get :: "jsobj \<Rightarrow> string \<Rightarrow> jsval" where
  "obj_get fs k = (case map_of fs k of None \<Rightarrow> JUndefined | Some v \<Rightarrow> v)"

definition nullish :: "jsval \<Rightarrow> bool" where
  "nullish v = (v = JUndefined \<or> v = JNull)"

text \<open>
  \<^verbatim>\<open>v.k\<close> for a key \<open>k\<close> that is not a built-in property, on a value that is neither
  \<open>undefined\<close> nor \<open>null\<close>: primitives and arrays have no such property.
\<close>

fun field :: "jsval \<Rightarrow> string \<Rightarrow> jsval" where
  "field (JObj fs) k = obj_get fs k"
| "field v k = JUndefined"

text \<open>\<^verbatim>\<open>v.k\<close> in general: reading a property of \<open>undefined\<close> or \<open>null\<close> throws a
  TypeError.\<close>

definition get_prop :: "jsval \<Rightarrow> string \<Rightarrow> exn + jsval" where
  "get_prop v k =
     (if nullish v then Inl (Error ''TypeError: cannot read properties of undefined or null'')
      else Inr (field v k))"

text \<open>\<^verbatim>\<open>v?.k\<close>\<close>

definition opt_prop :: "jsval \<Rightarrow> string \<Rightarrow> jsval" where
  "opt_prop v k = (if nullish v then JUndefined else field v k)"

text \<open>Sequencing of steps that may throw.\<close>

definition ebind :: "exn + 'a \<Rightarrow> ('a \<Rightarrow> exn + 'b) \<Rightarrow> exn + 'b" where
  "ebind m f = (case m of Inl e \<Rightarrow> Inl e | Inr x \<Rightarrow> f x)"

text \<open>Decimal digits of a natural number.\<close>

fun digits :: "nat \<Rightarrow> string" where
  "digits n = (if n < 10 then [char_of (48 + n)] else digits (n div 10) @ [char_of (48 + n mod 10)])"

text \<open>
  \<open>JNum n\<close> stands for the Number value of the integer \<open>n\<close>: the double nearest to it,
  which is \<open>n\<close> rounded to 53 significant bits, ties to even. Below \<open>2^53\<close> that is \<open>n\<close>
  itself; from \<open>2^1024\<close> on the value stands for \<open>Infinity\<close>.
\<close>

fun bitlen :: "nat \<Rightarrow> nat" where
  "bitlen n = (if n = 0 then 0 else Suc (bitlen (n div 2)))"

definition numberValue :: "nat \<Rightarrow> nat" where
  "numberValue n =
     (if n < 2 ^ 53 then n
      else
        let sh = bitlen n - 53;
            q = n div 2 ^ sh;
            r = n mod 2 ^ sh;
            h = 2 ^ (sh - 1)
        in (if h < r \<or> (r = h \<and> odd q) then q + 1 else q) * 2 ^ sh)"

text \<open>
  Number::toString on an integer value \<open>x\<close>: the decimal with the fewest significant
  digits whose Number value is \<open>x\<close>, the closest to \<open>x\<close> when there are several (the one
  with an even last digit when two are equally close). \<open>shortest x j\<close> looks for it among
  the multiples of \<open>10^j\<close>, then of \<open>10^(j-1)\<close>, and so on down to \<open>x\<close> itself.
\<close>

fun shortest :: "nat \<Rightarrow> nat \<Rightarrow> nat" where
  "shortest x 0 = x"
| "shortest x (Suc j) =
     (let p = 10 ^ Suc j;
          lo = (x div p) * p;
          hi = lo + p
      in if numberValue lo = x \<and> numberValue hi = x then
           (if x - lo < hi - x then lo
            else if hi - x < x - lo then hi
            else if even (x div p) then lo else hi)
         else if numberValue lo = x then lo
         else if numberValue hi = x then hi
         else shortest x j)"

definition strip_zeros :: "string \<Rightarrow> string" where
  "strip_zeros s = rev (dropWhile (\<lambda>c. c = CHR ''0'') (rev s))"

text \<open>The decimal is written out in full when it has at most 21 digits, and otherwise as
  its significant digits, with a point after the first, and the exponent.\<close>

definition number_str :: "nat \<Rightarrow> string" where
  "number_str n =
     (let x = numberValue n in
      if 2 ^ 1024 \<le> x then ''Infinity''
      else
        let d = digits (shortest x (length (digits x))) in
        if length d \<le> 21 then d
        else
          let s = strip_zeros d in
          hd s # (if length s > 1 then CHR ''.'' # tl s else []) @ ''e+'' @ digits (length d - 1))"

definition num_str :: "int \<Rightarrow> string" where
  "num_str i = (if i < 0 then CHR ''-'' # number_str (nat (- i)) else number_str (nat i))"

fun join_comma :: "string list \<Rightarrow> string" where
  "join_comma [] = []"
| "join_comma [s] = s"
| "join_comma (s # t # ss) = s @ CHR '','' # join_comma (t # ss)"

text \<open>
  ToString, as applied by a template literal and by \<^verbatim>\<open>JSON.parse\<close> to its argument.
  An array renders as its elements joined by commas, with \<open>undefined\<close> and \<open>null\<close>
  elements rendered empty. An object renders as \<^verbatim>\<open>[object Object]\<close>, unless it has a
  property \<^verbatim>\<open>toString\<close> of its own: in parsed JSON that is no function, the inherited
  \<^verbatim>\<open>valueOf\<close> gives no primitive either, and the conversion throws a TypeError.
\<close>

fun toString :: "jsval \<Rightarrow> exn + string"
  and toStrings :: "jsval list \<Rightarrow> exn + string list" where
  "toString JUndefined = Inr ''undefined''"
| "toString JNull = Inr ''null''"
| "toString (JBool b) = Inr (if b then ''true'' else ''false'')"
| "toString (JNum n) = Inr (num_str n)"
| "toString (JStr s) = Inr s"
| "toString (JArr xs) = ebind (toStrings xs) (\<lambda>ss. Inr (join_comma ss))"
| "toString (JObj fs) =
     (if map_of fs ''toString'' = None then Inr ''[object Object]''
      else Inl (Error ''TypeError: Cannot convert object to primitive value''))"
| "toStrings [] = Inr []"
| "toStrings (x # xs) =
     ebind (if nullish x then Inr [] else toString x)
       (\<lambda>s. ebind (toStrings xs) (\<lambda>ss. Inr (s # ss)))"

text \<open>\<^verbatim>\<open>String.prototype.trim\<close>: white space and line terminators among the code
  units below 256 are TAB, LF, VT, FF, CR, SP and NBSP.\<close>

definition is_ws :: "char \<Rightarrow> bool" where
  "is_ws c = (of_char c \<in> {9, 10, 11, 12, 13, 32, 160 :: nat})"

definition trim :: "string \<Rightarrow> string" where
  "trim s = rev (dropWhile is_ws (rev (dropWhile is_ws s)))"

section \<open>Profile normalisation\<close>

text \<open>
  \<^verbatim>\<open>person.fullName || `${person.firstName || ''} ${person.lastName || ''}`.trim()\<close>, the
  same expression in both mappings: the template literal is evaluated only when
  \<^verbatim>\<open>fullName\<close> is falsy, and it throws when the rendering of a name throws.
\<close>

definition fullNameOf :: "jsval \<Rightarrow> exn + jsval" where
  "fullNameOf person =
     (if truthy (field person ''fullName'') then Inr (field person ''fullName'')
      else
        ebind (toString (js_or (field person ''firstName'') (JStr ''''))) (\<lambda>first.
        ebind (toString (js_or (field person ''lastName'') (JStr ''''))) (\<lambda>last.
          Inr (JStr (trim (first @ '' '' @ last))))))"

text \<open>
  The mapping applied to every record of the Apollo scraper's dataset in
  \<^verbatim>\<open>searchApolloLeads\<close>. \<^verbatim>\<open>randomUUID()\<close> and \<^verbatim>\<open>new Date().toISOString()\<close> are
  inputs of the model (\<open>uuid\<close> and \<open>now\<close>). The result is the list of properties
  of the new object literal. The mapping throws on a record that is \<open>null\<close> or
  \<open>undefined\<close>, and when the full name has to be composed and cannot be rendered.
\<close>

definition apolloLead :: "string \<Rightarrow> string \<Rightarrow> jsval \<Rightarrow> exn + jsobj" where
  "apolloLead uuid now person =
     (if nullish person then Inl (Error ''TypeError: cannot read properties of undefined or null'')
      else
        ebind (fullNameOf person) (\<lambda>name. Inr
        [(''id'', JStr uuid),
         (''firstName'', js_or (field person ''firstName'') (JStr '''')),
         (''lastName'', js_or (field person ''lastName'') (JStr '''')),
         (''fullName'', name),
         (''email'', js_or (field person ''email'') (JStr '''')),
         (''jobTitle'', js_or (js_or (field person ''jobTitle'') (field person ''headline'')) (JStr '''')),
         (''companyName'', js_or (field person ''companyName'') (JStr '''')),
         (''companyIndustry'', js_or (field person ''companyIndustry'') (JStr '''')),
         (''companySize'', js_or (field person ''companySize'') (JStr '''')),
         (''location'', js_or (field person ''location'') (JStr '''')),
         (''linkedin_url'', js_or (js_or (field person ''linkedinUrl'') (field person ''profileUrl'')) (JStr '''')),
         (''createdAt'', JStr now),
         (''email_status'', JStr ''not_sent'')]))"

text \<open>The mapping applied to every record of the LinkedIn profile scraper's
  dataset in \<^verbatim>\<open>searchGoogleLeads\<close>.\<close>

definition googleLead :: "string \<Rightarrow> string \<Rightarrow> jsval \<Rightarrow> exn + jsobj" where
  "googleLead uuid now profile =
     (if nullish profile then Inl (Error ''TypeError: cannot read properties of undefined or null'')
      else
        ebind (fullNameOf profile) (\<lambda>name. Inr
        [(''id'', JStr uuid),
         (''firstName'', js_or (field profile ''firstName'') (JStr '''')),
         (''lastName'', js_or (field profile ''lastName'') (JStr '''')),
         (''fullName'', name),
         (''email'', JStr ''''),
         (''jobTitle'', js_or (js_or (field profile ''headline'') (field profile ''position'')) (JStr '''')),
         (''companyName'', js_or (field profile ''company'') (JStr '''')),
         (''companyIndustry'', js_or (field profile ''industry'') (JStr '''')),
         (''companySize'', JStr ''''),
         (''location'', js_or (field profile ''location'') (JStr '''')),
         (''linkedin_url'', js_or (field profile ''url'') (JStr '''')),
         (''createdAt'', JStr now),
         (''email_status'', JStr ''not_sent'')]))"

section \<open>Configuration, collaborators and effects\<close>

text \<open>The module-level configuration read from the process environment. An
  environment variable is unset (\<open>None\<close>) or a string; the empty string is falsy.
  \<open>APIFY_API_TOKENS\<close> is the list the module makes of \<^verbatim>\<open>APIFY_API_TOKEN\<close>: empty when
  the variable is unset or empty, the value itself as the only token otherwise (a value
  that starts with a bracket is taken to be the JSON array of strings it stands for).\<close>

record config =
  NEXT_PUBLIC_SUPABASE_URL :: "string option"
  SUPABASE_SERVICE_ROLE_KEY :: "string option"
  APIFY_API_TOKENS :: "string list"
  GOOGLE_API_KEY :: "string option"
  GOOGLE_CSE_ID :: "string option"
  OPENAI_API_KEY :: "string option"

definition env_set :: "string option \<Rightarrow> bool" where
  "env_set v = (case v of None \<Rightarrow> False | Some s \<Rightarrow> s \<noteq> [])"

text \<open>
  The two clients are built when the module is loaded, before any request is handled.
  \<^verbatim>\<open>createClient\<close> of the storage library throws when the URL or the key it is given is
  falsy (a URL that is set is taken to be well formed); the constructor of the model's
  client throws when the \<^verbatim>\<open>apiKey\<close> it is given is \<open>undefined\<close>, which is what an unset
  variable reads as (the message is the first clause of the library's), and accepts any
  string, the empty one included.
\<close>

definition createClient :: "string option \<Rightarrow> string option \<Rightarrow> exn + unit" where
  "createClient supabaseUrl supabaseKey =
     (if \<not> env_set supabaseUrl then Inl (Error ''supabaseUrl is required.'')
      else if \<not> env_set supabaseKey then Inl (Error ''supabaseKey is required.'')
      else Inr ())"

definition newOpenAI :: "string option \<Rightarrow> exn + unit" where
  "newOpenAI apiKey =
     (if apiKey = None then
        Inl (Error ''The OPENAI_API_KEY environment variable is missing or empty'')
      else Inr ())"

text \<open>The statements at the top level of the module that can throw, in their order.\<close>

definition moduleInit :: "config \<Rightarrow> exn + unit" where
  "moduleInit cfg =
     ebind (createClient (NEXT_PUBLIC_SUPABASE_URL cfg) (SUPABASE_SERVICE_ROLE_KEY cfg))
       (\<lambda>supabase. newOpenAI (OPENAI_API_KEY cfg))"

text \<open>What \<^verbatim>\<open>await fetch(url)\<close> gives: a rejection, or a response with its \<^verbatim>\<open>ok\<close>
  flag, status, status text and the outcome of \<^verbatim>\<open>response.json()\<close>.\<close>

datatype reply =
    Rejects exn
  | Responds (ok: bool) (status: nat) (statusText: string) (json: "exn + jsval")

text \<open>
  Everything the handler obtains from outside during one request: the generated
  identifiers and timestamps (by the position of the record they are made for), the
  replies of the search engine and of the scrape provider (the status reply by the
  number of the polling attempt), the outcome of the scoring model's call for each
  lead, the built-in \<^verbatim>\<open>JSON.parse\<close>, and the outcome of the storage insert.
\<close>

record world =
  uuid :: "nat \<Rightarrow> string"
  now :: "nat \<Rightarrow> string"
  respondedAt :: string
  googleSearch :: reply
  apifyRun :: reply
  apifyStatus :: "nat \<Rightarrow> reply"
  apifyDataset :: reply
  chatCompletion :: "nat \<Rightarrow> exn + jsval"
  jsonParse :: "string \<Rightarrow> exn + jsval"
  supabaseInsert :: "exn + jsval"

datatype endpoint = GoogleSearch | ApifyRun | ApifyStatus | ApifyDataset

text \<open>The observable effects of a request, in the order they happen.\<close>

datatype effect =
    Fetch endpoint
  | Sleep nat
  | ChatCompletion nat
  | Insert "jsobj list"
  | ConsoleError string

text \<open>A computation either throws or returns, and leaves a trace of effects.\<close>

type_synonym 'a io = "(exn + 'a) \<times> effect list"

definition ret :: "'a \<Rightarrow> 'a io" where
  "ret x = (Inr x, [])"

definition throw :: "exn \<Rightarrow> 'a io" where
  "throw e = (Inl e, [])"

definition eff :: "effect \<Rightarrow> unit io" where
  "eff e = (Inr (), [e])"

definition lift :: "exn + 'a \<Rightarrow> 'a io" where
  "lift r = (r, [])"

definition io_bind :: "'a io \<Rightarrow> ('a \<Rightarrow> 'b io) \<Rightarrow> 'b io" where
  "io_bind m f =
     (case m of
        (Inl e, t) \<Rightarrow> (Inl e, t)
      | (Inr x, t) \<Rightarrow> (case f x of (r, t') \<Rightarrow> (r, t @ t')))"

text \<open>\<^verbatim>\<open>try { ... } catch (error) { console.error(label, error); throw error }\<close>\<close>

definition log_rethrow :: "string \<Rightarrow> 'a io \<Rightarrow> 'a io" where
  "log_rethrow label m =
     (case m of (Inl e, t) \<Rightarrow> (Inl e, t @ [ConsoleError label]) | (Inr x, t) \<Rightarrow> (Inr x, t))"

text \<open>\<^verbatim>\<open>await fetch(url)\<close> followed by \<^verbatim>\<open>await response.json()\<close>, with no look at
  \<^verbatim>\<open>response.ok\<close>.\<close>

definition fetch_json :: "endpoint \<Rightarrow> reply \<Rightarrow> jsval io" where
  "fetch_json ep r =
     io_bind (eff (Fetch ep))
       (\<lambda>_. case r of Rejects e \<Rightarrow> throw e | Responds _ _ _ j \<Rightarrow> lift j)"

text \<open>The same with the \<^verbatim>\<open>if (!response.ok) throw new Error(...)\<close> check between the
  two; \<open>what\<close> is the message's prefix.\<close>

definition fetch_ok_json :: "endpoint \<Rightarrow> string \<Rightarrow> reply \<Rightarrow> jsval io" where
  "fetch_ok_json ep what r =
     io_bind (eff (Fetch ep))
       (\<lambda>_. case r of
               Rejects e \<Rightarrow> throw e
             | Responds k st txt j \<Rightarrow>
                 if \<not> k then throw (Error (what @ num_str (int st) @ '' '' @ txt))
                 else lift j)"

section \<open>Polling the scrape provider\<close>

definition maxAttempts :: nat where
  "maxAttempts = 30"

text \<open>\<^verbatim>\<open>results.map(mk)\<close>: a TypeError unless \<open>results\<close> is an array; the \<open>k\<close>-th
  record is given the \<open>k\<close>-th identifier and timestamp.\<close>

fun map_records ::
  "(string \<Rightarrow> string \<Rightarrow> jsval \<Rightarrow> exn + jsobj) \<Rightarrow> world \<Rightarrow> nat \<Rightarrow> jsval list \<Rightarrow> exn + jsobj list" where
  "map_records mk w k [] = Inr []"
| "map_records mk w k (p # ps) =
     ebind (mk (uuid w k) (now w k) p)
       (\<lambda>l. ebind (map_records mk w (Suc k) ps) (\<lambda>ls. Inr (l # ls)))"

fun map_results ::
  "(string \<Rightarrow> string \<Rightarrow> jsval \<Rightarrow> exn + jsobj) \<Rightarrow> world \<Rightarrow> jsval \<Rightarrow> exn + jsobj list" where
  "map_results mk w (JArr ps) = map_records mk w 0 ps"
| "map_results mk w v = Inl (Error ''TypeError: results.map is not a function'')"

text \<open>One status request of the loop: the request, \<^verbatim>\<open>statusResponse.json()\<close>, and
  the read of \<^verbatim>\<open>statusData.data.status\<close>.\<close>

definition readStatus :: "world \<Rightarrow> nat \<Rightarrow> jsval io" where
  "readStatus w attempts =
     io_bind (fetch_json ApifyStatus (apifyStatus w attempts))
       (\<lambda>statusData. lift (ebind (get_prop statusData ''data'') (\<lambda>d. get_prop d ''status'')))"

text \<open>The \<^verbatim>\<open>SUCCEEDED\<close> branch: fetch the dataset and map its records.\<close>

definition fetchResults ::
  "world \<Rightarrow> (string \<Rightarrow> string \<Rightarrow> jsval \<Rightarrow> exn + jsobj) \<Rightarrow> jsobj list io" where
  "fetchResults w mk =
     io_bind (fetch_json ApifyDataset (apifyDataset w))
       (\<lambda>results. lift (map_results mk w results))"

text \<open>
  The \<^verbatim>\<open>while (attempts < maxAttempts)\<close> loop shared by \<^verbatim>\<open>searchApolloLeads\<close> and
  \<^verbatim>\<open>searchGoogleLeads\<close> (they differ in the actor polled and in the mapping \<open>mk\<close>
  applied to the dataset): wait 2000 ms, ask for the run's status, on
  \<^verbatim>\<open>SUCCEEDED\<close> fetch and map the dataset, on \<^verbatim>\<open>FAILED\<close> throw, otherwise count the
  attempt and go round again; after the loop, throw the timeout error.
\<close>

function pollLoop ::
  "world \<Rightarrow> (string \<Rightarrow> string \<Rightarrow> jsval \<Rightarrow> exn + jsobj) \<Rightarrow> nat \<Rightarrow> jsobj list io" where
  "pollLoop w mk attempts =
     (if attempts < maxAttempts then
        io_bind (eff (Sleep 2000)) (\<lambda>_.
        io_bind (readStatus w attempts) (\<lambda>st.
          if st = JStr ''SUCCEEDED'' then fetchResults w mk
          else if st = JStr ''FAILED'' then throw (Error ''Apify actor run failed'')
          else pollLoop w mk (attempts + 1)))
      else throw (Error ''Apify actor run timeout''))"
  by pat_completeness auto
termination
  by (relation "measure (\<lambda>(w, mk, attempts). maxAttempts - attempts)") auto

declare pollLoop.simps [simp del]

text \<open>Starting the actor run: the request, the \<^verbatim>\<open>ok\<close> check, and the read of
  \<^verbatim>\<open>runData.data.id\<close>.\<close>

definition startRun :: "world \<Rightarrow> jsval io" where
  "startRun w =
     io_bind (fetch_ok_json ApifyRun ''Apify run failed: '' (apifyRun w))
       (\<lambda>runData. lift (ebind (get_prop runData ''data'') (\<lambda>d. get_prop d ''id'')))"

definition searchApolloLeads :: "config \<Rightarrow> world \<Rightarrow> jsobj list io" where
  "searchApolloLeads cfg w =
     log_rethrow ''Apollo search error:''
       (if APIFY_API_TOKENS cfg = [] then throw (Error ''Apify API tokens not configured'')
        else io_bind (startRun w) (\<lambda>runId. pollLoop w apolloLead 0))"

section \<open>Search-engine sourcing with enrichment\<close>

text \<open>\<^verbatim>\<open>v.length\<close>\<close>

fun js_length :: "jsval \<Rightarrow> exn + jsval" where
  "js_length (JArr xs) = Inr (JNum (int (length xs)))"
| "js_length (JStr s) = Inr (JNum (int (length s)))"
| "js_length v = get_prop v ''length''"

text \<open>\<^verbatim>\<open>s.includes(pat)\<close> on strings\<close>

fun str_includes :: "string \<Rightarrow> string \<Rightarrow> bool" where
  "str_includes [] pat = (pat = [])"
| "str_includes (c # cs) pat = (take (length pat) (c # cs) = pat \<or> str_includes cs pat)"

text \<open>\<^verbatim>\<open>url.includes('linkedin.com/in/')\<close> for whatever the search item's \<^verbatim>\<open>link\<close> is:
  a substring test on a string, a membership test on an array, a TypeError on
  anything else.\<close>

fun is_profile_url :: "jsval \<Rightarrow> exn + bool" where
  "is_profile_url (JStr s) = Inr (str_includes s ''linkedin.com/in/'')"
| "is_profile_url (JArr xs) = Inr (JStr ''linkedin.com/in/'' \<in> set xs)"
| "is_profile_url v = Inl (Error ''TypeError: url.includes is not a function'')"

text \<open>\<^verbatim>\<open>items.map((item) => item.link)\<close>. (On an item that is a string, \<^verbatim>\<open>item.link\<close> is a
  built-in method and not \<open>undefined\<close>; \<^verbatim>\<open>includes\<close> is no function of either, so the
  filter that follows throws in the model as in the code.)\<close>

fun map_links :: "jsval list \<Rightarrow> exn + jsval list" where
  "map_links [] = Inr []"
| "map_links (item # items) =
     ebind (get_prop item ''link'') (\<lambda>l. ebind (map_links items) (\<lambda>ls. Inr (l # ls)))"

fun filter_profiles :: "jsval list \<Rightarrow> exn + jsval list" where
  "filter_profiles [] = Inr []"
| "filter_profiles (u # us) =
     ebind (is_profile_url u)
       (\<lambda>b. ebind (filter_profiles us) (\<lambda>r. Inr (if b then u # r else r)))"

text \<open>\<^verbatim>\<open>searchData.items.map(item => item.link).filter(...).slice(0, 10)\<close>\<close>

fun linkedinUrls :: "jsval \<Rightarrow> exn + jsval list" where
  "linkedinUrls (JArr items) =
     ebind (map_links items) (\<lambda>ls. ebind (filter_profiles ls) (\<lambda>us. Inr (take 10 us)))"
| "linkedinUrls v = Inl (Error ''TypeError: searchData.items.map is not a function'')"

definition searchGoogleLeads :: "config \<Rightarrow> world \<Rightarrow> jsobj list io" where
  "searchGoogleLeads cfg w =
     log_rethrow ''Google search error:''
       (if \<not> env_set (GOOGLE_API_KEY cfg) \<or> \<not> env_set (GOOGLE_CSE_ID cfg)
           \<or> APIFY_API_TOKENS cfg = []
        then throw (Error ''Google API key, CSE ID, or Apify tokens not configured'')
        else
          io_bind (fetch_ok_json GoogleSearch ''Google Search API error: '' (googleSearch w))
            (\<lambda>searchData.
          io_bind (lift (get_prop searchData ''items'')) (\<lambda>items.
          if \<not> truthy items then ret []
          else
            io_bind (lift (js_length items)) (\<lambda>n.
            if n = JNum 0 then ret []
            else
              io_bind (lift (linkedinUrls items)) (\<lambda>urls.
              if length urls = 0 then ret []
              else io_bind (startRun w) (\<lambda>runId. pollLoop w googleLead 0))))))"

section \<open>Scoring\<close>

record icp =
  score :: jsval
  grade :: jsval
  reasoning :: jsval

text \<open>\<^verbatim>\<open>v[0]\<close>\<close>

fun index0 :: "jsval \<Rightarrow> exn + jsval" where
  "index0 JUndefined = Inl (Error ''TypeError: cannot read properties of undefined or null'')"
| "index0 JNull = Inl (Error ''TypeError: cannot read properties of undefined or null'')"
| "index0 (JArr xs) = Inr (case xs of [] \<Rightarrow> JUndefined | x # _ \<Rightarrow> x)"
| "index0 (JStr s) = Inr (case s of [] \<Rightarrow> JUndefined | c # _ \<Rightarrow> JStr [c])"
| "index0 (JObj fs) = Inr (obj_get fs ''0'')"
| "index0 v = Inr JUndefined"

text \<open>\<^verbatim>\<open>response.choices[0]?.message?.content\<close> with the \<^verbatim>\<open>if (!content) throw\<close>
  after it; the argument is the outcome of the model call.\<close>

definition responseContent :: "exn + jsval \<Rightarrow> exn + jsval" where
  "responseContent completion =
     ebind completion (\<lambda>response.
     ebind (get_prop response ''choices'') (\<lambda>choices.
     ebind (index0 choices) (\<lambda>choice.
       let content = opt_prop (opt_prop choice ''message'') ''content'' in
       if \<not> truthy content then Inl (Error ''No content in OpenAI response'')
       else Inr content)))"

text \<open>The \<^verbatim>\<open>return\<close> of the \<^verbatim>\<open>try\<close> block: each key of the parsed result that is
  falsy gets its own default.\<close>

definition scoreOfResult :: "jsval \<Rightarrow> exn + icp" where
  "scoreOfResult result =
     ebind (get_prop result ''score'') (\<lambda>s.
     ebind (get_prop result ''grade'') (\<lambda>g.
     ebind (get_prop result ''reasoning'') (\<lambda>r.
       Inr \<lparr>score = js_or s (JNum 0),
            grade = js_or g (JStr ''D''),
            reasoning = js_or r (JStr ''No reasoning provided'')\<rparr>)))"

text \<open>The body of the \<^verbatim>\<open>try\<close> block of \<^verbatim>\<open>scoreProfile\<close>, from the outcome of the
  model call on: read the content, parse it (\<^verbatim>\<open>JSON.parse\<close> converts its argument to
  a string first), build the score.\<close>

definition scoreProfile_try :: "(string \<Rightarrow> exn + jsval) \<Rightarrow> exn + jsval \<Rightarrow> exn + icp" where
  "scoreProfile_try parse completion =
     ebind (responseContent completion) (\<lambda>content.
     ebind (ebind (toString content) parse) scoreOfResult)"

definition failureScore :: icp where
  "failureScore = \<lparr>score = JNum 0, grade = JStr ''D'', reasoning = JStr ''Error during scoring''\<rparr>"

text \<open>\<^verbatim>\<open>scoreProfile\<close> for the \<open>i\<close>-th lead: the model call, and the \<^verbatim>\<open>catch\<close> that
  logs and returns the failure score.\<close>

definition scoreProfile :: "world \<Rightarrow> nat \<Rightarrow> icp io" where
  "scoreProfile w i =
     io_bind (eff (ChatCompletion i))
       (\<lambda>_. case scoreProfile_try (jsonParse w) (chatCompletion w i) of
               Inl e \<Rightarrow> (Inr failureScore, [ConsoleError ''ICP scoring error:''])
             | Inr r \<Rightarrow> ret r)"

text \<open>\<^verbatim>\<open>{...o, k: v}\<close>: an existing property keeps its place, a new one goes last.\<close>

fun obj_set :: "jsobj \<Rightarrow> string \<Rightarrow> jsval \<Rightarrow> jsobj" where
  "obj_set [] k v = [(k, v)]"
| "obj_set ((k', v') # fs) k v = (if k' = k then (k, v) # fs else (k', v') # obj_set fs k v)"

definition with_icp :: "jsobj \<Rightarrow> icp \<Rightarrow> jsobj" where
  "with_icp lead r =
     obj_set (obj_set (obj_set lead ''icp_score'' (score r)) ''icp_grade'' (grade r))
       ''icpReasoning'' (reasoning r)"

text \<open>The \<^verbatim>\<open>for\<close> loop of the handler over \<^verbatim>\<open>leads\<close>, from index \<open>i\<close> on, with its own
  \<^verbatim>\<open>try\<close>/\<^verbatim>\<open>catch\<close> around each call of \<^verbatim>\<open>scoreProfile\<close>.\<close>

fun scoreLeads :: "world \<Rightarrow> nat \<Rightarrow> jsobj list \<Rightarrow> jsobj list \<times> effect list" where
  "scoreLeads w i [] = ([], [])"
| "scoreLeads w i (lead # leads) =
     (let (r, t) = scoreProfile w i;
          (lead', t') = (case r of
                           Inr icpResult \<Rightarrow> (with_icp lead icpResult, t)
                         | Inl e \<Rightarrow> (with_icp lead failureScore, t @ [ConsoleError ''Error scoring lead:'']));
          (rest, t'') = scoreLeads w (Suc i) leads
      in (lead' # rest, t' @ t''))"

section \<open>The route handler\<close>

text \<open>
  The request body, with the fields typed as the client's \<^verbatim>\<open>generateLeads\<close> declares
  them; a field that is absent is \<open>None\<close>. An array is truthy even when empty, a
  string only when non-empty. The search functions build their outbound query from
  these fields and from nothing else, and on fields of these types that construction
  cannot throw; it is not part of the model.
\<close>

record request =
  "method" :: "string option"
  jobTitles :: "string list option"
  locations :: "string list option"
  industries :: "string list option"
  companySizes :: "string list option"
  limit :: "nat option"

datatype response = Response (code: nat) (body: jsobj)

definition given_str :: "string option \<Rightarrow> bool" where
  "given_str m = (case m of None \<Rightarrow> False | Some s \<Rightarrow> s \<noteq> [])"

definition error_body :: "string \<Rightarrow> jsobj" where
  "error_body msg = [(''status'', JStr ''error''), (''message'', JStr msg)]"

text \<open>The insert into the \<^verbatim>\<open>leads\<close> table, skipped for an empty batch. Its result is
  only ever logged: an \<^verbatim>\<open>error\<close> in the result by the \<^verbatim>\<open>if\<close>, a thrown exception by
  the \<^verbatim>\<open>catch\<close> around the insert.\<close>

definition saveLeads :: "world \<Rightarrow> jsobj list \<Rightarrow> effect list" where
  "saveLeads w leads =
     (if length leads > 0 then
        Insert leads #
        (case ebind (supabaseInsert w) (\<lambda>res. get_prop res ''error'') of
           Inl e \<Rightarrow> [ConsoleError ''Error saving leads to database:'']
         | Inr err \<Rightarrow> if truthy err then [ConsoleError ''Supabase insert error:''] else [])
      else [])"

text \<open>The handler from \<^verbatim>\<open>// Score leads with ICP\<close> on: score when the model's key is
  configured, save, and answer with the leads.\<close>

definition finish :: "config \<Rightarrow> world \<Rightarrow> string \<Rightarrow> jsobj list \<Rightarrow> response io" where
  "finish cfg w m sourced =
     (let (leads, t) = (if env_set (OPENAI_API_KEY cfg) then scoreLeads w 0 sourced
                        else (sourced, []))
      in (Inr (Response 200
                [(''status'', JStr ''success''),
                 (''data'', JObj
                    [(''leads'', JArr (map JObj leads)),
                     (''count'', JNum (int (length leads))),
                     (''method'', JStr m),
                     (''timestamp'', JStr (respondedAt w))])]),
          t @ saveLeads w leads))"

text \<open>The \<^verbatim>\<open>try\<close> block of \<^verbatim>\<open>POST\<close>; the argument is the outcome of
  \<^verbatim>\<open>await request.json()\<close>.\<close>

definition POST_try :: "config \<Rightarrow> world \<Rightarrow> exn + request \<Rightarrow> response io" where
  "POST_try cfg w rq =
     io_bind (lift rq) (\<lambda>b.
       if \<not> given_str (method b) \<or> jobTitles b = None \<or> locations b = None then
         ret (Response 400 (error_body ''Missing required parameters''))
       else if method b = Some ''apollo'' then
         (if APIFY_API_TOKENS cfg = [] then
            ret (Response 500 (error_body ''Apify API tokens not configured''))
          else io_bind (searchApolloLeads cfg w) (finish cfg w ''apollo''))
       else if method b = Some ''google_apify'' then
         (if \<not> env_set (GOOGLE_API_KEY cfg) \<or> \<not> env_set (GOOGLE_CSE_ID cfg)
             \<or> APIFY_API_TOKENS cfg = [] then
            ret (Response 500 (error_body ''Google or Apify API credentials not configured''))
          else io_bind (searchGoogleLeads cfg w) (finish cfg w ''google_apify''))
       else ret (Response 400 (error_body ''Invalid method specified'')))"

text \<open>\<^verbatim>\<open>POST\<close>: the \<^verbatim>\<open>catch\<close> turns whatever was thrown into a 500 answer.\<close>

definition POST :: "config \<Rightarrow> world \<Rightarrow> exn + request \<Rightarrow> response \<times> effect list" where
  "POST cfg w rq =
     (case POST_try cfg w rq of
        (Inr r, t) \<Rightarrow> (r, t)
      | (Inl e, t) \<Rightarrow>
          (Response 500
             [(''status'', JStr ''error''),
              (''message'', JStr (case e of Error m \<Rightarrow> m | NonError \<Rightarrow> ''Unknown error occurred'')),
              (''timestamp'', JStr (respondedAt w))],
           t @ [ConsoleError ''Lead generation error:'']))"

text \<open>
  A request to the route: the module is loaded, and when that throws, \<^verbatim>\<open>POST\<close> is
  never called and the request gets no answer of the handler's.
\<close>

definition serve :: "config \<Rightarrow> world \<Rightarrow> exn + request \<Rightarrow> exn + response \<times> effect list" where
  "serve cfg w rq = ebind (moduleInit cfg) (\<lambda>_. Inr (POST cfg w rq))"

text \<open>The outcome a caller reads off the answer: its \<^verbatim>\<open>status\<close> property.\<close>

definition outcome :: "response \<times> effect list \<Rightarrow> jsval" where
  "outcome r = obj_get (body (fst r)) ''status''"

text \<open>Whether an effect is a request to the search engine or the scrape provider.\<close>

fun is_fetch :: "effect \<Rightarrow> bool" where
  "is_fetch (Fetch ep) = True"
| "is_fetch e = False"

section \<open>Notions used to state the properties\<close>

text \<open>Normalising the object that a normalisation produced.\<close>

definition twice :: "(jsval \<Rightarrow> exn + jsobj) \<Rightarrow> jsval \<Rightarrow> exn + jsobj" where
  "twice nrm x = ebind (nrm x) (\<lambda>l. nrm (JObj l))"

text \<open>A value that is neither an array nor an object.\<close>

fun primitive :: "jsval \<Rightarrow> bool" where
  "primitive (JArr xs) = False"
| "primitive (JObj fs) = False"
| "primitive v = True"

text \<open>The status request of attempt \<open>j\<close> is answered, with a status that is neither
  \<^verbatim>\<open>SUCCEEDED\<close> nor \<^verbatim>\<open>FAILED\<close>, so that the loop goes round again.\<close>

definition pending :: "world \<Rightarrow> nat \<Rightarrow> bool" where
  "pending w j =
     (case fst (readStatus w j) of
        Inl e \<Rightarrow> False
      | Inr st \<Rightarrow> st \<noteq> JStr ''SUCCEEDED'' \<and> st \<noteq> JStr ''FAILED'')"

text \<open>The trace of \<open>n\<close> rounds of the loop.\<close>

definition polls :: "nat \<Rightarrow> effect list" where
  "polls n = concat (replicate n [Sleep 2000, Fetch ApifyStatus])"

text \<open>Whether an effect is a call of the scoring model.\<close>

fun is_chat :: "effect \<Rightarrow> bool" where
  "is_chat (ChatCompletion i) = True"
| "is_chat e = False"

section \<open>Example environments\<close>

definition run_started :: reply where
  "run_started =
     Responds True 201 ''Created'' (Inr (JObj [(''data'', JObj [(''id'', JStr ''run1'')])]))"

definition status_reply :: "string \<Rightarrow> reply" where
  "status_reply s =
     Responds True 200 ''OK''
       (Inr (JObj [(''data'', JObj [(''status'', JStr s), (''defaultDatasetId'', JStr ''ds1'')])]))"

definition content_reply :: "string \<Rightarrow> exn + jsval" where
  "content_reply c =
     Inr (JObj [(''choices'', JArr [JObj [(''message'', JObj [(''content'', JStr c)])]])])"

text \<open>What \<^verbatim>\<open>JSON.parse\<close> does on the texts the examples use: the empty object
  is parsed, prose is a syntax error.\<close>

definition parse_ex :: "string \<Rightarrow> exn + jsval" where
  "parse_ex s =
     (if s = ''{}'' then Inr (JObj [])
      else Inl (Error ''SyntaxError: Unexpected token''))"

definition cfg_ex :: config where
  "cfg_ex = \<lparr>NEXT_PUBLIC_SUPABASE_URL = Some ''https://db.example.co'',
             SUPABASE_SERVICE_ROLE_KEY = Some ''service-role'',
             APIFY_API_TOKENS = [''token''], GOOGLE_API_KEY = Some ''key'',
             GOOGLE_CSE_ID = Some ''cse'', OPENAI_API_KEY = Some ''sk''\<rparr>"

definition rq_apollo :: request where
  "rq_apollo = \<lparr>method = Some ''apollo'', jobTitles = Some [''Operations Manager''],
                locations = Some [''Texas''], industries = None, companySizes = None,
                limit = None\<rparr>"

definition rq_google :: request where
  "rq_google = rq_apollo\<lparr>method := Some ''google_apify''\<rparr>"

text \<open>
  A run in which everything answers: the search finds one profile, the scrape run
  succeeds at the third poll with three records, the model answers \<^verbatim>\<open>{}\<close> for the
  first lead, cannot be reached for the second and answers prose for the third, and
  the insert succeeds.
\<close>

definition w_ex :: world where
  "w_ex = \<lparr>uuid = (\<lambda>k. ''id-'' @ digits k),
           now = (\<lambda>k. ''2025-01-01T00:00:00.000Z''),
           respondedAt = ''2025-01-01T00:01:00.000Z'',
           googleSearch = Responds True 200 ''OK''
             (Inr (JObj [(''items'', JArr [JObj [(''link'', JStr ''https://www.linkedin.com/in/ada'')]])])),
           apifyRun = run_started,
           apifyStatus = (\<lambda>k. status_reply (if k < 2 then ''RUNNING'' else ''SUCCEEDED'')),
           apifyDataset = Responds True 200 ''OK''
             (Inr (JArr [JObj [(''firstName'', JStr ''Ada''), (''lastName'', JStr ''Lovelace''),
                               (''linkedinUrl'', JStr ''https://www.linkedin.com/in/ada'')],
                         JObj [(''firstName'', JStr ''Grace'')],
                         JObj []])),
           chatCompletion = (\<lambda>i. if i = 0 then content_reply ''{}''
                                   else if i = 1 then Inl (Error ''fetch failed'')
                                   else content_reply ''Sorry, I cannot score this.''),
           jsonParse = parse_ex,
           supabaseInsert = Inr (JObj [(''error'', JNull)])\<rparr>"

text \<open>The same run with the storage insert throwing.\<close>

definition w_insert_fails :: world where
  "w_insert_fails = w_ex\<lparr>supabaseInsert := Inl (Error ''connection refused'')\<rparr>"

text \<open>The same run with the storage insert resolving to a result that carries an
  error, which is how the storage client reports a rejected insert.\<close>

definition w_insert_error :: world where
  "w_insert_error =
     w_ex\<lparr>supabaseInsert :=
            Inr (JObj [(''error'', JObj [(''message'', JStr ''permission denied for table leads'')]),
                       (''data'', JNull)])\<rparr>"

text \<open>The same run with the scrape run reported \<^verbatim>\<open>FAILED\<close> at the first poll, with
  the run never leaving \<^verbatim>\<open>RUNNING\<close>, and with the status request rejected.\<close>

definition w_run_failed :: world where
  "w_run_failed = w_ex\<lparr>apifyStatus := (\<lambda>k. status_reply ''FAILED'')\<rparr>"

definition w_run_pending :: world where
  "w_run_pending = w_ex\<lparr>apifyStatus := (\<lambda>k. status_reply ''RUNNING'')\<rparr>"

definition w_poll_rejected :: world where
  "w_poll_rejected = w_ex\<lparr>apifyStatus := (\<lambda>k. Rejects (Error ''fetch failed''))\<rparr>"

text \<open>The same run with a dataset that is empty.\<close>

definition w_no_results :: world where
  "w_no_results = w_ex\<lparr>apifyDataset := Responds True 200 ''OK'' (Inr (JArr []))\<rparr>"

text \<open>The leads that the example run sources through Apollo, the effects of that
  sourcing, the same leads as the example run scores them, and the effects of that
  scoring.\<close>

definition lead_ex :: "string \<Rightarrow> string \<Rightarrow> string \<Rightarrow> string \<Rightarrow> string \<Rightarrow> jsobj" where
  "lead_ex i given family full url =
     [(''id'', JStr i), (''firstName'', JStr given), (''lastName'', JStr family),
      (''fullName'', JStr full), (''email'', JStr ''''), (''jobTitle'', JStr ''''),
      (''companyName'', JStr ''''), (''companyIndustry'', JStr ''''), (''companySize'', JStr ''''),
      (''location'', JStr ''''), (''linkedin_url'', JStr url),
      (''createdAt'', JStr ''2025-01-01T00:00:00.000Z''), (''email_status'', JStr ''not_sent'')]"

definition leads_ex :: "jsobj list" where
  "leads_ex =
     [lead_ex ''id-0'' ''Ada'' ''Lovelace'' ''Ada Lovelace'' ''https://www.linkedin.com/in/ada'',
      lead_ex ''id-1'' ''Grace'' '''' ''Grace'' '''',
      lead_ex ''id-2'' '''' '''' '''' '''']"

definition sourcing_ex :: "effect list" where
  "sourcing_ex =
     [Fetch ApifyRun, Sleep 2000, Fetch ApifyStatus, Sleep 2000, Fetch ApifyStatus,
      Sleep 2000, Fetch ApifyStatus, Fetch ApifyDataset]"

definition scored_ex :: "jsobj list" where
  "scored_ex =
     map2 (\<lambda>l r. l @ [(''icp_score'', JNum 0), (''icp_grade'', JStr ''D''), (''icpReasoning'', JStr r)])
       leads_ex [''No reasoning provided'', ''Error during scoring'', ''Error during scoring'']"

definition scoring_ex :: "effect list" where
  "scoring_ex =
     [ChatCompletion 0, ChatCompletion 1, ConsoleError ''ICP scoring error:'',
      ChatCompletion 2, ConsoleError ''ICP scoring error:'']"

section \<open>Properties of the normaliser\<close>

lemma js_or_absorb: "js_or (js_or a b) b = js_or a b"
  by (simp add: js_or_def)

lemma js_or_undefined_absorb: "js_or (js_or (js_or c e) JUndefined) e = js_or c e"
  by (simp add: js_or_def)

lemma js_or_undefined: "js_or JUndefined e = e"
  by (simp add: js_or_def)

lemma js_or_empty: "js_or (JStr []) e = e"
  by (simp add: js_or_def)

lemma js_or_falsy: "\<not> truthy a \<Longrightarrow> js_or a e = e"
  by (simp add: js_or_def)

lemma ebind_Inr: "ebind (Inr x) f = f x"
  by (simp add: ebind_def)

lemma ebind_Inl: "ebind (Inl e) f = Inl e"
  by (simp add: ebind_def)

lemma ebind_eq_Inr: "ebind m f = Inr y \<longleftrightarrow> (\<exists>x. m = Inr x \<and> f x = Inr y)"
  by (cases m) (simp_all add: ebind_def)

lemma ebind_eq_Inl: "ebind m f = Inl e \<longleftrightarrow> m = Inl e \<or> (\<exists>x. m = Inr x \<and> f x = Inl e)"
  by (cases m) (simp_all add: ebind_def)

text \<open>Rendering: small numbers in full, large ones rounded to the nearest Number value
  and, from \<open>10^21\<close> on, in exponent form; an object with a \<^verbatim>\<open>toString\<close> property of its
  own cannot be rendered.\<close>

lemma char_of_digits:
  "char_of (48::nat) = CHR ''0''" "char_of (49::nat) = CHR ''1''" "char_of (50::nat) = CHR ''2''"
  "char_of (51::nat) = CHR ''3''" "char_of (52::nat) = CHR ''4''" "char_of (53::nat) = CHR ''5''"
  "char_of (54::nat) = CHR ''6''" "char_of (55::nat) = CHR ''7''" "char_of (56::nat) = CHR ''8''"
  "char_of (57::nat) = CHR ''9''"
  by code_simp+

lemmas num_defs = num_str_def number_str_def numberValue_def Let_def strip_zeros_def char_of_digits

lemma toString_numbers:
  "toString (JNum 0) = Inr ''0''"
  "toString (JNum 42) = Inr ''42''"
  "toString (JNum (- 7)) = Inr ''-7''"
  "toString (JNum 9007199254740993) = Inr ''9007199254740992''"
  "toString (JNum 1000000000000000000000) = Inr ''1e+21''"
  by (simp_all add: num_defs)

lemma toString_values:
  "toString (JArr [JNum 1, JNull, JStr ''a'', JArr [JBool True, JUndefined]]) = Inr ''1,,a,true,''"
  "toString (JObj [(''a'', JNum 1)]) = Inr ''[object Object]''"
  "toString (JObj [(''toString'', JNum 1)]) =
     Inl (Error ''TypeError: Cannot convert object to primitive value'')"
  "toString (JArr [JObj [(''toString'', JNum 1)]]) =
     Inl (Error ''TypeError: Cannot convert object to primitive value'')"
  by (simp_all add: ebind_def nullish_def num_defs)





lemma fullNameOf_Inr:
  assumes "fullNameOf p = Inr name"
  shows "(truthy (field p ''fullName'') \<and> name = field p ''fullName'')
     \<or> (\<not> truthy (field p ''fullName'')
         \<and> (\<exists>a b. toString (js_or (field p ''firstName'') (JStr '''')) = Inr a
                \<and> toString (js_or (field p ''lastName'') (JStr '''')) = Inr b
                \<and> name = JStr (trim (a @ '' '' @ b))))"
  using assms by (auto simp: fullNameOf_def ebind_eq_Inr split: if_splits)


text \<open>The name of a lead is the name of the object made of it.\<close>

lemma fullNameOf_again:
  assumes "fullNameOf x = Inr name"
    and "field y ''fullName'' = name"
    and "field y ''firstName'' = js_or (field x ''firstName'') (JStr '''')"
    and "field y ''lastName'' = js_or (field x ''lastName'') (JStr '''')"
  shows "fullNameOf y = Inr name"
proof (cases "truthy name")
  case True
  with assms(2) show ?thesis by (simp add: fullNameOf_def)
next
  case False
  from fullNameOf_Inr [OF assms(1)] False
  obtain a b where "toString (js_or (field x ''firstName'') (JStr '''')) = Inr a"
    and "toString (js_or (field x ''lastName'') (JStr '''')) = Inr b"
    and "name = JStr (trim (a @ '' '' @ b))"
    by auto
  with False assms(2-4) show ?thesis
    by (simp add: fullNameOf_def ebind_def js_or_absorb)
qed

lemma apolloLead_Inr:
  "apolloLead u t x = Inr l \<longleftrightarrow>
     \<not> nullish x \<and> (\<exists>name. fullNameOf x = Inr name \<and> l =
        [(''id'', JStr u),
         (''firstName'', js_or (field x ''firstName'') (JStr '''')),
         (''lastName'', js_or (field x ''lastName'') (JStr '''')),
         (''fullName'', name),
         (''email'', js_or (field x ''email'') (JStr '''')),
         (''jobTitle'', js_or (js_or (field x ''jobTitle'') (field x ''headline'')) (JStr '''')),
         (''companyName'', js_or (field x ''companyName'') (JStr '''')),
         (''companyIndustry'', js_or (field x ''companyIndustry'') (JStr '''')),
         (''companySize'', js_or (field x ''companySize'') (JStr '''')),
         (''location'', js_or (field x ''location'') (JStr '''')),
         (''linkedin_url'', js_or (js_or (field x ''linkedinUrl'') (field x ''profileUrl'')) (JStr '''')),
         (''createdAt'', JStr t),
         (''email_status'', JStr ''not_sent'')])"
  by (cases "nullish x"; cases "fullNameOf x") (auto simp: apolloLead_def ebind_def)

lemma googleLead_Inr:
  "googleLead u t x = Inr g \<longleftrightarrow>
     \<not> nullish x \<and> (\<exists>name. fullNameOf x = Inr name \<and> g =
        [(''id'', JStr u),
         (''firstName'', js_or (field x ''firstName'') (JStr '''')),
         (''lastName'', js_or (field x ''lastName'') (JStr '''')),
         (''fullName'', name),
         (''email'', JStr ''''),
         (''jobTitle'', js_or (js_or (field x ''headline'') (field x ''position'')) (JStr '''')),
         (''companyName'', js_or (field x ''company'') (JStr '''')),
         (''companyIndustry'', js_or (field x ''industry'') (JStr '''')),
         (''companySize'', JStr ''''),
         (''location'', js_or (field x ''location'') (JStr '''')),
         (''linkedin_url'', js_or (field x ''url'') (JStr '''')),
         (''createdAt'', JStr t),
         (''email_status'', JStr ''not_sent'')])"
  by (cases "nullish x"; cases "fullNameOf x") (auto simp: googleLead_def ebind_def)

lemma apolloLead_again:
  assumes "apolloLead u t x = Inr l"
  shows "apolloLead u t (JObj l) = Inr (obj_set l ''linkedin_url'' (JStr ''''))"
proof -
  from assms obtain name where n: "fullNameOf x = Inr name"
    and l: "l =
        [(''id'', JStr u),
         (''firstName'', js_or (field x ''firstName'') (JStr '''')),
         (''lastName'', js_or (field x ''lastName'') (JStr '''')),
         (''fullName'', name),
         (''email'', js_or (field x ''email'') (JStr '''')),
         (''jobTitle'', js_or (js_or (field x ''jobTitle'') (field x ''headline'')) (JStr '''')),
         (''companyName'', js_or (field x ''companyName'') (JStr '''')),
         (''companyIndustry'', js_or (field x ''companyIndustry'') (JStr '''')),
         (''companySize'', js_or (field x ''companySize'') (JStr '''')),
         (''location'', js_or (field x ''location'') (JStr '''')),
         (''linkedin_url'', js_or (js_or (field x ''linkedinUrl'') (field x ''profileUrl'')) (JStr '''')),
         (''createdAt'', JStr t),
         (''email_status'', JStr ''not_sent'')]"
    unfolding apolloLead_Inr by blast
  have "fullNameOf (JObj l) = Inr name"
    by (rule fullNameOf_again [OF n]) (simp_all add: l obj_get_def)
  then show ?thesis
    by (simp add: apolloLead_def nullish_def ebind_Inr)
       (simp add: l obj_get_def js_or_absorb js_or_undefined_absorb js_or_undefined)
qed

lemma googleLead_again:
  assumes "googleLead u t x = Inr g"
  shows "googleLead u t (JObj g) =
     Inr (obj_set (obj_set (obj_set (obj_set g ''jobTitle'' (JStr '''')) ''companyName'' (JStr ''''))
            ''companyIndustry'' (JStr '''')) ''linkedin_url'' (JStr ''''))"
proof -
  from assms obtain name where n: "fullNameOf x = Inr name"
    and g: "g =
        [(''id'', JStr u),
         (''firstName'', js_or (field x ''firstName'') (JStr '''')),
         (''lastName'', js_or (field x ''lastName'') (JStr '''')),
         (''fullName'', name),
         (''email'', JStr ''''),
         (''jobTitle'', js_or (js_or (field x ''headline'') (field x ''position'')) (JStr '''')),
         (''companyName'', js_or (field x ''company'') (JStr '''')),
         (''companyIndustry'', js_or (field x ''industry'') (JStr '''')),
         (''companySize'', JStr ''''),
         (''location'', js_or (field x ''location'') (JStr '''')),
         (''linkedin_url'', js_or (field x ''url'') (JStr '''')),
         (''createdAt'', JStr t),
         (''email_status'', JStr ''not_sent'')]"
    unfolding googleLead_Inr by blast
  have "fullNameOf (JObj g) = Inr name"
    by (rule fullNameOf_again [OF n]) (simp_all add: g obj_get_def)
  then show ?thesis
    by (simp add: googleLead_def nullish_def ebind_Inr)
       (simp add: g obj_get_def js_or_absorb js_or_undefined_absorb js_or_undefined js_or_empty)
qed

text \<open>
  C8, as the spec states it: normalising the output of normalisation gives the same
  record. This fails: the Apollo mapping reads the profile link from \<^verbatim>\<open>linkedinUrl\<close>
  or \<^verbatim>\<open>profileUrl\<close> and writes it to \<^verbatim>\<open>linkedin_url\<close>, so a second pass, even with
  the same identifier and timestamp, finds no link and writes the empty string.
\<close>

theorem normalize_not_idempotent:
  "twice (apolloLead ''id'' ''t'') (JObj [(''linkedinUrl'', JStr ''https://www.linkedin.com/in/ada'')])
   \<noteq> apolloLead ''id'' ''t'' (JObj [(''linkedinUrl'', JStr ''https://www.linkedin.com/in/ada'')])"
  by (simp add: twice_def ebind_def apolloLead_def fullNameOf_def nullish_def obj_get_def js_or_def)

text \<open>
  C8, amended: with the same identifier and timestamp, normalising a normalised
  record reproduces every property except those the mapping reads under another
  name than it writes, which become the empty string: \<^verbatim>\<open>linkedin_url\<close> for the Apollo
  mapping; \<^verbatim>\<open>jobTitle\<close>, \<^verbatim>\<open>companyName\<close>, \<^verbatim>\<open>companyIndustry\<close> and \<^verbatim>\<open>linkedin_url\<close> for
  the LinkedIn mapping.
\<close>

theorem normalize_twice:
  "(apolloLead u t x = Inr l \<longrightarrow>
      twice (apolloLead u t) x = Inr (obj_set l ''linkedin_url'' (JStr '''')))
   \<and> (googleLead u t x = Inr g \<longrightarrow>
      twice (googleLead u t) x =
        Inr (obj_set (obj_set (obj_set (obj_set g ''jobTitle'' (JStr '''')) ''companyName'' (JStr ''''))
               ''companyIndustry'' (JStr '''')) ''linkedin_url'' (JStr '''')))"
  by (simp add: twice_def ebind_def apolloLead_again googleLead_again)

theorem normalize_twice_witness:
  "apolloLead ''id'' ''t'' (JObj [(''linkedinUrl'', JStr ''u''), (''firstName'', JStr ''Ada'')]) =
     Inr [(''id'', JStr ''id''), (''firstName'', JStr ''Ada''), (''lastName'', JStr ''''),
          (''fullName'', JStr ''Ada''), (''email'', JStr ''''), (''jobTitle'', JStr ''''),
          (''companyName'', JStr ''''), (''companyIndustry'', JStr ''''), (''companySize'', JStr ''''),
          (''location'', JStr ''''), (''linkedin_url'', JStr ''u''),
          (''createdAt'', JStr ''t''), (''email_status'', JStr ''not_sent'')]
   \<and> twice (apolloLead ''id'' ''t'') (JObj [(''linkedinUrl'', JStr ''u''), (''firstName'', JStr ''Ada'')]) =
     Inr [(''id'', JStr ''id''), (''firstName'', JStr ''Ada''), (''lastName'', JStr ''''),
          (''fullName'', JStr ''Ada''), (''email'', JStr ''''), (''jobTitle'', JStr ''''),
          (''companyName'', JStr ''''), (''companyIndustry'', JStr ''''), (''companySize'', JStr ''''),
          (''location'', JStr ''''), (''linkedin_url'', JStr ''''),
          (''createdAt'', JStr ''t''), (''email_status'', JStr ''not_sent'')]
   \<and> googleLead ''id'' ''t'' (JObj [(''headline'', JStr ''CTO''), (''url'', JStr ''u'')]) =
     Inr [(''id'', JStr ''id''), (''firstName'', JStr ''''), (''lastName'', JStr ''''),
          (''fullName'', JStr ''''), (''email'', JStr ''''), (''jobTitle'', JStr ''CTO''),
          (''companyName'', JStr ''''), (''companyIndustry'', JStr ''''), (''companySize'', JStr ''''),
          (''location'', JStr ''''), (''linkedin_url'', JStr ''u''),
          (''createdAt'', JStr ''t''), (''email_status'', JStr ''not_sent'')]
   \<and> twice (googleLead ''id'' ''t'') (JObj [(''headline'', JStr ''CTO''), (''url'', JStr ''u'')]) =
     Inr [(''id'', JStr ''id''), (''firstName'', JStr ''''), (''lastName'', JStr ''''),
          (''fullName'', JStr ''''), (''email'', JStr ''''), (''jobTitle'', JStr ''''),
          (''companyName'', JStr ''''), (''companyIndustry'', JStr ''''), (''companySize'', JStr ''''),
          (''location'', JStr ''''), (''linkedin_url'', JStr ''''),
          (''createdAt'', JStr ''t''), (''email_status'', JStr ''not_sent'')]"
proof -
  have a: "apolloLead ''id'' ''t'' (JObj [(''linkedinUrl'', JStr ''u''), (''firstName'', JStr ''Ada'')]) =
     Inr [(''id'', JStr ''id''), (''firstName'', JStr ''Ada''), (''lastName'', JStr ''''),
          (''fullName'', JStr ''Ada''), (''email'', JStr ''''), (''jobTitle'', JStr ''''),
          (''companyName'', JStr ''''), (''companyIndustry'', JStr ''''), (''companySize'', JStr ''''),
          (''location'', JStr ''''), (''linkedin_url'', JStr ''u''),
          (''createdAt'', JStr ''t''), (''email_status'', JStr ''not_sent'')]"
    by (simp add: apolloLead_def fullNameOf_def ebind_def nullish_def obj_get_def js_or_def trim_def is_ws_def)
  have g: "googleLead ''id'' ''t'' (JObj [(''headline'', JStr ''CTO''), (''url'', JStr ''u'')]) =
     Inr [(''id'', JStr ''id''), (''firstName'', JStr ''''), (''lastName'', JStr ''''),
          (''fullName'', JStr ''''), (''email'', JStr ''''), (''jobTitle'', JStr ''CTO''),
          (''companyName'', JStr ''''), (''companyIndustry'', JStr ''''), (''companySize'', JStr ''''),
          (''location'', JStr ''''), (''linkedin_url'', JStr ''u''),
          (''createdAt'', JStr ''t''), (''email_status'', JStr ''not_sent'')]"
    by (simp add: googleLead_def fullNameOf_def ebind_def nullish_def obj_get_def js_or_def trim_def is_ws_def)
  from normalize_twice [THEN conjunct1, rule_format, OF a]
  have a2: "twice (apolloLead ''id'' ''t'') (JObj [(''linkedinUrl'', JStr ''u''), (''firstName'', JStr ''Ada'')]) =
     Inr [(''id'', JStr ''id''), (''firstName'', JStr ''Ada''), (''lastName'', JStr ''''),
          (''fullName'', JStr ''Ada''), (''email'', JStr ''''), (''jobTitle'', JStr ''''),
          (''companyName'', JStr ''''), (''companyIndustry'', JStr ''''), (''companySize'', JStr ''''),
          (''location'', JStr ''''), (''linkedin_url'', JStr ''''),
          (''createdAt'', JStr ''t''), (''email_status'', JStr ''not_sent'')]"
    by simp
  from normalize_twice [THEN conjunct2, rule_format, OF g]
  have g2: "twice (googleLead ''id'' ''t'') (JObj [(''headline'', JStr ''CTO''), (''url'', JStr ''u'')]) =
     Inr [(''id'', JStr ''id''), (''firstName'', JStr ''''), (''lastName'', JStr ''''),
          (''fullName'', JStr ''''), (''email'', JStr ''''), (''jobTitle'', JStr ''''),
          (''companyName'', JStr ''''), (''companyIndustry'', JStr ''''), (''companySize'', JStr ''''),
          (''location'', JStr ''''), (''linkedin_url'', JStr ''''),
          (''createdAt'', JStr ''t''), (''email_status'', JStr ''not_sent'')]"
    by simp
  from a a2 g g2 show ?thesis by blast
qed







text \<open>A record on which the composition of the name throws, and one whose name is
  composed from a number.\<close>

lemma apolloLead_unrenderable:
  "apolloLead ''id'' ''t'' (JObj [(''firstName'', JObj [(''toString'', JNum 1)])]) =
     Inl (Error ''TypeError: Cannot convert object to primitive value'')"
  by (simp add: apolloLead_def fullNameOf_def ebind_def nullish_def obj_get_def js_or_def)

lemma fullNameOf_number:
  "fullNameOf (JObj [(''firstName'', JNum 1000000000000000000000), (''lastName'', JStr ''Byron'')]) =
     Inr (JStr ''1e+21 Byron'')"
  by (simp add: fullNameOf_def ebind_def obj_get_def js_or_def trim_def is_ws_def num_defs)


section \<open>Properties of the polling loop\<close>

lemma io_bind_Inr: "io_bind (Inr x, t) f = (fst (f x), t @ snd (f x))"
  by (simp add: io_bind_def split: prod.splits)

lemma io_bind_Inl: "io_bind (Inl e, t) f = (Inl e, t)"
  by (simp add: io_bind_def)

lemma fetch_json_snd: "snd (fetch_json ep r) = [Fetch ep]"
  by (cases r) (simp_all add: fetch_json_def eff_def io_bind_Inr throw_def lift_def)

lemma readStatus_snd: "snd (readStatus w a) = [Fetch ApifyStatus]"
proof (cases "fetch_json ApifyStatus (apifyStatus w a)")
  case (Pair r t)
  with fetch_json_snd [of ApifyStatus "apifyStatus w a"] have "t = [Fetch ApifyStatus]" by simp
  with Pair show ?thesis
    by (cases r) (simp_all add: readStatus_def io_bind_Inr io_bind_Inl lift_def)
qed

lemma fetchResults_snd: "snd (fetchResults w mk) = [Fetch ApifyDataset]"
proof (cases "fetch_json ApifyDataset (apifyDataset w)")
  case (Pair r t)
  with fetch_json_snd [of ApifyDataset "apifyDataset w"] have "t = [Fetch ApifyDataset]" by simp
  with Pair show ?thesis
    by (cases r) (simp_all add: fetchResults_def io_bind_Inr io_bind_Inl lift_def)
qed

lemma polls_0: "polls 0 = []"
  by (simp add: polls_def)

lemma polls_Suc: "polls (Suc n) = Sleep 2000 # Fetch ApifyStatus # polls n"
  by (simp add: polls_def)

lemma polls_add: "polls (m + k) = polls m @ polls k"
  by (simp add: polls_def replicate_add)

lemma pollLoop_unfold:
  assumes "a < maxAttempts"
  shows "pollLoop w mk a =
     (case fst (readStatus w a) of
        Inl e \<Rightarrow> (Inl e, polls 1)
      | Inr st \<Rightarrow>
          if st = JStr ''SUCCEEDED'' then (fst (fetchResults w mk), polls 1 @ [Fetch ApifyDataset])
          else if st = JStr ''FAILED'' then (Inl (Error ''Apify actor run failed''), polls 1)
          else (fst (pollLoop w mk (Suc a)), polls 1 @ snd (pollLoop w mk (Suc a))))"
proof -
  obtain r where r: "readStatus w a = (r, [Fetch ApifyStatus])"
    using readStatus_snd [of w a] by (cases "readStatus w a") simp
  obtain q where q: "fetchResults w mk = (q, [Fetch ApifyDataset])"
    using fetchResults_snd [of w mk] by (cases "fetchResults w mk") simp
  show ?thesis
    using assms
    apply (subst pollLoop.simps)
    apply (cases r)
     apply (simp_all add: r q eff_def io_bind_Inr io_bind_Inl throw_def polls_Suc polls_0
       )
    done
qed


lemma pollLoop_from:
  "a \<le> maxAttempts \<Longrightarrow>
   \<exists>n. a \<le> n \<and> n \<le> maxAttempts \<and> (\<forall>j. a \<le> j \<and> j < n \<longrightarrow> pending w j) \<and>
     (if n = maxAttempts
      then pollLoop w mk a = (Inl (Error ''Apify actor run timeout''), polls (n - a))
      else \<not> pending w n \<and> pollLoop w mk a =
        (case fst (readStatus w n) of
           Inl e \<Rightarrow> (Inl e, polls (Suc n - a))
         | Inr st \<Rightarrow>
             if st = JStr ''SUCCEEDED''
             then (fst (fetchResults w mk), polls (Suc n - a) @ [Fetch ApifyDataset])
             else (Inl (Error ''Apify actor run failed''), polls (Suc n - a))))"
proof (induction "maxAttempts - a" arbitrary: a)
  case 0
  then have "a = maxAttempts" by simp
  then have "pollLoop w mk a = (Inl (Error ''Apify actor run timeout''), polls (a - a))"
    by (simp add: pollLoop.simps throw_def polls_0)
  with \<open>a = maxAttempts\<close> show ?case
    by (intro exI [of _ a]) (auto)
next
  case (Suc d)
  then have lt: "a < maxAttempts" by simp
  show ?case
  proof (cases "pending w a")
    case False
    with lt have "pollLoop w mk a =
        (case fst (readStatus w a) of
           Inl e \<Rightarrow> (Inl e, polls (Suc a - a))
         | Inr st \<Rightarrow>
             if st = JStr ''SUCCEEDED''
             then (fst (fetchResults w mk), polls (Suc a - a) @ [Fetch ApifyDataset])
             else (Inl (Error ''Apify actor run failed''), polls (Suc a - a)))"
      by (auto simp add: pollLoop_unfold pending_def polls_Suc polls_0 split: sum.splits)
    with False lt show ?thesis
      by (intro exI [of _ a]) (auto)
  next
    case True
    from Suc.hyps(2) lt have "d = maxAttempts - Suc a" "Suc a \<le> maxAttempts" by simp_all
    from Suc.hyps(1) [OF this] obtain n where n: "Suc a \<le> n" "n \<le> maxAttempts"
      "\<forall>j. Suc a \<le> j \<and> j < n \<longrightarrow> pending w j"
      "if n = maxAttempts
       then pollLoop w mk (Suc a) = (Inl (Error ''Apify actor run timeout''), polls (n - Suc a))
       else \<not> pending w n \<and> pollLoop w mk (Suc a) =
        (case fst (readStatus w n) of
           Inl e \<Rightarrow> (Inl e, polls (Suc n - Suc a))
         | Inr st \<Rightarrow>
             if st = JStr ''SUCCEEDED''
             then (fst (fetchResults w mk), polls (Suc n - Suc a) @ [Fetch ApifyDataset])
             else (Inl (Error ''Apify actor run failed''), polls (Suc n - Suc a)))"
      by blast
    from True lt have step: "pollLoop w mk a =
        (fst (pollLoop w mk (Suc a)), polls 1 @ snd (pollLoop w mk (Suc a)))"
      by (auto simp add: pollLoop_unfold pending_def polls_Suc polls_0 split: sum.splits)
    from n(1) have "n - a = 1 + (n - Suc a)" "Suc n - a = 1 + (Suc n - Suc a)"
      by simp_all
    then have p1: "polls 1 @ polls (n - Suc a) = polls (n - a)"
      and p2: "polls 1 @ polls (Suc n - Suc a) = polls (Suc n - a)"
      by (simp_all only: polls_add)
    have pend: "\<forall>j. a \<le> j \<and> j < n \<longrightarrow> pending w j"
      using True n(3) by (metis Suc_leI le_neq_implies_less)
    show ?thesis
    proof (cases "n = maxAttempts")
      case True
      with n(4) step p1 have "pollLoop w mk a = (Inl (Error ''Apify actor run timeout''), polls (n - a))"
        by (simp)
      with True n pend show ?thesis
        by (intro exI [of _ n]) (auto)
    next
      case False
      with n(4) have np: "\<not> pending w n" and eq: "pollLoop w mk (Suc a) =
        (case fst (readStatus w n) of
           Inl e \<Rightarrow> (Inl e, polls (Suc n - Suc a))
         | Inr st \<Rightarrow>
             if st = JStr ''SUCCEEDED''
             then (fst (fetchResults w mk), polls (Suc n - Suc a) @ [Fetch ApifyDataset])
             else (Inl (Error ''Apify actor run failed''), polls (Suc n - Suc a)))"
        by simp_all
      have "pollLoop w mk a =
        (case fst (readStatus w n) of
           Inl e \<Rightarrow> (Inl e, polls (Suc n - a))
         | Inr st \<Rightarrow>
             if st = JStr ''SUCCEEDED''
             then (fst (fetchResults w mk), polls (Suc n - a) @ [Fetch ApifyDataset])
             else (Inl (Error ''Apify actor run failed''), polls (Suc n - a)))"
        unfolding step eq using p2
        by (simp split: sum.splits flip: append_assoc)
      with False np n pend show ?thesis
        by (intro exI [of _ n]) (auto)
    qed
  qed
qed


text \<open>
  C5, as the spec states it: every run of the loop ends in success, in the timeout
  error or in the job-failed error. This fails when a status request is rejected (the
  network is down, say): the rejection leaves the loop at once, and it is neither of
  the two errors nor a success.
\<close>

theorem poll_loop_not_three_outcomes:
  "pollLoop w_poll_rejected apolloLead 0 = (Inl (Error ''fetch failed''), [Sleep 2000, Fetch ApifyStatus])"
  by (simp add: pollLoop.simps w_poll_rejected_def w_ex_def maxAttempts_def readStatus_def
      fetch_json_def eff_def throw_def io_bind_Inr io_bind_Inl)

text \<open>
  C5, amended: the loop always ends, after \<open>n + 1 \<le> 30\<close> status requests or after
  30 of them, each preceded by a wait of 2000 ms. If 30 requests in a row report a
  status that is neither \<^verbatim>\<open>SUCCEEDED\<close> nor \<^verbatim>\<open>FAILED\<close>, the result is the timeout error.
  Otherwise the first request \<open>n\<close> that does not decides: \<^verbatim>\<open>SUCCEEDED\<close> gives the mapped
  dataset (or what fetching and mapping it throws), \<^verbatim>\<open>FAILED\<close> gives the job-failed
  error, which is another error than the timeout, and a request that throws gives its
  own exception.
\<close>

theorem poll_loop_outcomes:
  "maxAttempts = 30 \<and>
   (\<exists>n \<le> maxAttempts. (\<forall>j < n. pending w j) \<and>
     (if n = maxAttempts
      then pollLoop w mk 0 =
        (Inl (Error ''Apify actor run timeout''),
         concat (replicate n [Sleep 2000, Fetch ApifyStatus]))
      else \<not> pending w n \<and> pollLoop w mk 0 =
        (case fst (readStatus w n) of
           Inl e \<Rightarrow> (Inl e, concat (replicate (Suc n) [Sleep 2000, Fetch ApifyStatus]))
         | Inr st \<Rightarrow>
             if st = JStr ''SUCCEEDED''
             then (fst (fetchResults w mk),
                   concat (replicate (Suc n) [Sleep 2000, Fetch ApifyStatus]) @ [Fetch ApifyDataset])
             else (Inl (Error ''Apify actor run failed''),
                   concat (replicate (Suc n) [Sleep 2000, Fetch ApifyStatus])))))"
proof -
  from pollLoop_from [of 0 w mk] obtain n where n: "n \<le> maxAttempts"
    "\<forall>j. 0 \<le> j \<and> j < n \<longrightarrow> pending w j"
    "if n = maxAttempts
      then pollLoop w mk 0 = (Inl (Error ''Apify actor run timeout''), polls (n - 0))
      else \<not> pending w n \<and> pollLoop w mk 0 =
        (case fst (readStatus w n) of
           Inl e \<Rightarrow> (Inl e, polls (Suc n - 0))
         | Inr st \<Rightarrow>
             if st = JStr ''SUCCEEDED''
             then (fst (fetchResults w mk), polls (Suc n - 0) @ [Fetch ApifyDataset])
             else (Inl (Error ''Apify actor run failed''), polls (Suc n - 0)))"
    by blast
  have "\<exists>n \<le> maxAttempts. (\<forall>j < n. pending w j) \<and>
     (if n = maxAttempts
      then pollLoop w mk 0 = (Inl (Error ''Apify actor run timeout''), polls n)
      else \<not> pending w n \<and> pollLoop w mk 0 =
        (case fst (readStatus w n) of
           Inl e \<Rightarrow> (Inl e, polls (Suc n))
         | Inr st \<Rightarrow>
             if st = JStr ''SUCCEEDED''
             then (fst (fetchResults w mk), polls (Suc n) @ [Fetch ApifyDataset])
             else (Inl (Error ''Apify actor run failed''), polls (Suc n))))"
    using n by (intro exI [of _ n]) (auto split: sum.splits)
  then show ?thesis
    unfolding polls_def by (simp add: maxAttempts_def)
qed

text \<open>In the example run the third status request reports \<^verbatim>\<open>SUCCEEDED\<close>.\<close>

lemma pending_w_ex: "pending w_ex j = (j < 2)"
  by (simp add: pending_def readStatus_def w_ex_def status_reply_def fetch_json_def eff_def
      lift_def io_bind_Inr ebind_def get_prop_def nullish_def obj_get_def)

lemma readStatus_w_ex_2: "fst (readStatus w_ex 2) = Inr (JStr ''SUCCEEDED'')"
  by (simp add: readStatus_def w_ex_def status_reply_def fetch_json_def eff_def
      lift_def io_bind_Inr ebind_def get_prop_def nullish_def obj_get_def)

theorem poll_loop_outcomes_witness:
  "pending w_ex 0 \<and> pending w_ex 1 \<and> \<not> pending w_ex 2 \<and>
   pollLoop w_ex apolloLead 0 =
     (fst (fetchResults w_ex apolloLead),
      [Sleep 2000, Fetch ApifyStatus, Sleep 2000, Fetch ApifyStatus, Sleep 2000, Fetch ApifyStatus,
       Fetch ApifyDataset])"
proof -
  from poll_loop_outcomes [of w_ex apolloLead] obtain n where n: "n \<le> maxAttempts"
    "\<forall>j < n. pending w_ex j"
    "if n = maxAttempts
      then pollLoop w_ex apolloLead 0 =
        (Inl (Error ''Apify actor run timeout''),
         concat (replicate n [Sleep 2000, Fetch ApifyStatus]))
      else \<not> pending w_ex n \<and> pollLoop w_ex apolloLead 0 =
        (case fst (readStatus w_ex n) of
           Inl e \<Rightarrow> (Inl e, concat (replicate (Suc n) [Sleep 2000, Fetch ApifyStatus]))
         | Inr st \<Rightarrow>
             if st = JStr ''SUCCEEDED''
             then (fst (fetchResults w_ex apolloLead),
                   concat (replicate (Suc n) [Sleep 2000, Fetch ApifyStatus]) @ [Fetch ApifyDataset])
             else (Inl (Error ''Apify actor run failed''),
                   concat (replicate (Suc n) [Sleep 2000, Fetch ApifyStatus])))"
    by blast
  from n(2) have "n \<le> 2"
    by (metis pending_w_ex not_le_imp_less less_irrefl)
  then have ne: "n \<noteq> maxAttempts" by (simp add: maxAttempts_def)
  with n(3) have "\<not> pending w_ex n" by simp
  with \<open>n \<le> 2\<close> have "n = 2" by (simp add: pending_w_ex)
  with n(3) ne have "pollLoop w_ex apolloLead 0 =
     (fst (fetchResults w_ex apolloLead),
      concat (replicate (Suc 2) [Sleep 2000, Fetch ApifyStatus]) @ [Fetch ApifyDataset])"
    by (simp add: readStatus_w_ex_2)
  then show ?thesis
    by (simp add: pending_w_ex numeral_2_eq_2)
qed

section \<open>Properties of the route handler\<close>

lemma io_bind_fst_Inl: "fst m = Inl e \<Longrightarrow> io_bind m f = (Inl e, snd m)"
  by (cases m) (simp add: io_bind_Inl)

lemma io_bind_fst_Inr: "fst m = Inr x \<Longrightarrow> io_bind m f = (fst (f x), snd m @ snd (f x))"
  by (cases m) (simp add: io_bind_Inr)

lemma fetch_ok_json_snd: "snd (fetch_ok_json ep what r) = [Fetch ep]"
  by (cases r) (simp_all add: fetch_ok_json_def eff_def io_bind_Inr throw_def lift_def)

lemma startRun_snd: "snd (startRun w) = [Fetch ApifyRun]"
proof (cases "fetch_ok_json ApifyRun ''Apify run failed: '' (apifyRun w)")
  case (Pair r t)
  with fetch_ok_json_snd [of ApifyRun "''Apify run failed: ''" "apifyRun w"]
  have "t = [Fetch ApifyRun]" by simp
  with Pair show ?thesis
    by (cases r) (simp_all add: startRun_def io_bind_Inr io_bind_Inl lift_def)
qed

lemma log_rethrow_Inl: "log_rethrow label (Inl e, t) = (Inl e, t @ [ConsoleError label])"
  by (simp add: log_rethrow_def)

lemma log_rethrow_Inr: "log_rethrow label (Inr x, t) = (Inr x, t)"
  by (simp add: log_rethrow_def)

lemma fst_log_rethrow: "fst (log_rethrow label m) = fst m"
  by (cases m, cases "fst m") (simp_all add: log_rethrow_def)

text \<open>Sourcing through Apollo, once the tokens are configured: the run is started and
  then polled.\<close>

lemma searchApolloLeads_run:
  assumes "APIFY_API_TOKENS cfg \<noteq> []"
  shows "searchApolloLeads cfg w =
     log_rethrow ''Apollo search error:''
       (case fst (startRun w) of
          Inl e \<Rightarrow> (Inl e, [Fetch ApifyRun])
        | Inr runId \<Rightarrow> (fst (pollLoop w apolloLead 0), Fetch ApifyRun # snd (pollLoop w apolloLead 0)))"
proof (cases "fst (startRun w)")
  case (Inl e)
  with assms show ?thesis
    using startRun_snd [of w] by (simp add: searchApolloLeads_def io_bind_fst_Inl)
next
  case (Inr runId)
  with assms show ?thesis
    using startRun_snd [of w] by (simp add: searchApolloLeads_def io_bind_fst_Inr)
qed

lemma pollLoop_skip:
  "a \<le> k \<Longrightarrow> k \<le> maxAttempts \<Longrightarrow> \<forall>j. a \<le> j \<and> j < k \<longrightarrow> pending w j \<Longrightarrow>
   pollLoop w mk a = (fst (pollLoop w mk k), polls (k - a) @ snd (pollLoop w mk k))"
proof (induction "k - a" arbitrary: a)
  case 0
  then show ?case by (simp add: polls_0)
next
  case (Suc d)
  then have lt: "a < k" "a < maxAttempts" and p: "pending w a" by simp_all
  from Suc.hyps(2) have d: "d = k - Suc a" by simp
  from lt have le: "Suc a \<le> k" by simp
  from Suc.prems(3) have "\<forall>j. Suc a \<le> j \<and> j < k \<longrightarrow> pending w j" by simp
  from Suc.hyps(1) [OF d le Suc.prems(2) this]
  have ih: "pollLoop w mk (Suc a) = (fst (pollLoop w mk k), polls (k - Suc a) @ snd (pollLoop w mk k))" .
  from lt(2) p have "pollLoop w mk a = (fst (pollLoop w mk (Suc a)), polls 1 @ snd (pollLoop w mk (Suc a)))"
    by (auto simp add: pollLoop_unfold pending_def split: sum.splits)
  also from le have "k - a = 1 + (k - Suc a)" by simp
  then have "polls 1 @ polls (k - Suc a) = polls (k - a)" by (simp only: polls_add)
  ultimately show ?case
    using ih by (simp flip: append_assoc)
qed

text \<open>The loop after \<open>k\<close> rounds that all had to go round again: a timeout when
  \<open>k\<close> is the bound, the job-failed error when request \<open>k\<close> reports \<^verbatim>\<open>FAILED\<close>.\<close>

lemma pollLoop_gives_up:
  assumes "k \<le> maxAttempts" "\<forall>j<k. pending w j"
    and "k < maxAttempts \<longrightarrow> fst (readStatus w k) = Inr (JStr ''FAILED'')"
  shows "pollLoop w mk 0 =
     (Inl (Error (if k < maxAttempts then ''Apify actor run failed'' else ''Apify actor run timeout'')),
      polls (if k < maxAttempts then Suc k else k))"
proof -
  from assms(1,2) have skip: "pollLoop w mk 0 = (fst (pollLoop w mk k), polls (k - 0) @ snd (pollLoop w mk k))"
    by (intro pollLoop_skip) simp_all
  show ?thesis
  proof (cases "k < maxAttempts")
    case True
    with assms(3) have "pollLoop w mk k = (Inl (Error ''Apify actor run failed''), polls 1)"
      by (simp add: pollLoop_unfold)
    with skip True show ?thesis
      using polls_add [of k 1] by simp
  next
    case False
    with assms(1) have "k = maxAttempts" by simp
    then have "pollLoop w mk k = (Inl (Error ''Apify actor run timeout''), [])"
      by (simp add: pollLoop.simps throw_def)
    with skip False show ?thesis by simp
  qed
qed


lemma searchApolloLeads_configured:
  "fst (searchApolloLeads cfg w) = Inr sourced \<Longrightarrow> APIFY_API_TOKENS cfg \<noteq> []"
  by (auto simp: searchApolloLeads_def throw_def log_rethrow_def)

lemma searchGoogleLeads_configured:
  "fst (searchGoogleLeads cfg w) = Inr sourced \<Longrightarrow>
   env_set (GOOGLE_API_KEY cfg) \<and> env_set (GOOGLE_CSE_ID cfg) \<and> APIFY_API_TOKENS cfg \<noteq> []"
proof (rule ccontr)
  assume ok: "fst (searchGoogleLeads cfg w) = Inr sourced"
  assume "\<not> (env_set (GOOGLE_API_KEY cfg) \<and> env_set (GOOGLE_CSE_ID cfg) \<and> APIFY_API_TOKENS cfg \<noteq> [])"
  then have "\<not> env_set (GOOGLE_API_KEY cfg) \<or> \<not> env_set (GOOGLE_CSE_ID cfg)
      \<or> APIFY_API_TOKENS cfg = []"
    by blast
  then have "searchGoogleLeads cfg w =
      log_rethrow ''Google search error:''
        (throw (Error ''Google API key, CSE ID, or Apify tokens not configured''))"
    unfolding searchGoogleLeads_def by (simp only: if_True)
  with ok show False
    by (simp add: throw_def log_rethrow_def)
qed

lemma given_str_Some: "given_str (Some (c # cs))"
  by (simp add: given_str_def)

lemma POST_try_apollo:
  assumes "method b = Some ''apollo''" "jobTitles b \<noteq> None" "locations b \<noteq> None"
    and "APIFY_API_TOKENS cfg \<noteq> []"
  shows "POST_try cfg w (Inr b) = io_bind (searchApolloLeads cfg w) (finish cfg w ''apollo'')"
  using assms by (auto simp add: POST_try_def lift_def io_bind_Inr given_str_def)

lemma POST_try_google:
  assumes "method b = Some ''google_apify''" "jobTitles b \<noteq> None" "locations b \<noteq> None"
    and "env_set (GOOGLE_API_KEY cfg)" "env_set (GOOGLE_CSE_ID cfg)" "APIFY_API_TOKENS cfg \<noteq> []"
  shows "POST_try cfg w (Inr b) = io_bind (searchGoogleLeads cfg w) (finish cfg w ''google_apify'')"
  using assms by (auto simp add: POST_try_def lift_def io_bind_Inr given_str_def)

lemma finish_fst:
  "fst (finish cfg w m sourced) =
     Inr (Response 200
       [(''status'', JStr ''success''),
        (''data'', JObj
           [(''leads'', JArr (map JObj (if env_set (OPENAI_API_KEY cfg)
                                        then fst (scoreLeads w 0 sourced) else sourced))),
            (''count'', JNum (int (length (if env_set (OPENAI_API_KEY cfg)
                                           then fst (scoreLeads w 0 sourced) else sourced)))),
            (''method'', JStr m),
            (''timestamp'', JStr (respondedAt w))])])"
  by (simp add: finish_def split: prod.splits)

lemma finish_snd:
  "snd (finish cfg w m sourced) =
     (if env_set (OPENAI_API_KEY cfg)
      then snd (scoreLeads w 0 sourced) @ saveLeads w (fst (scoreLeads w 0 sourced))
      else saveLeads w sourced)"
  by (simp add: finish_def split: prod.splits)

text \<open>The handler once sourcing has returned: the answer is the one \<open>finish\<close> builds,
  after the effects of sourcing and then those of \<open>finish\<close>.\<close>

lemma POST_sourced:
  assumes "jobTitles b \<noteq> None" "locations b \<noteq> None"
    and "(method b = Some ''apollo'' \<and> fst (searchApolloLeads cfg w) = Inr sourced \<and> m = ''apollo''
            \<and> t = snd (searchApolloLeads cfg w))
       \<or> (method b = Some ''google_apify'' \<and> fst (searchGoogleLeads cfg w) = Inr sourced
            \<and> m = ''google_apify'' \<and> t = snd (searchGoogleLeads cfg w))"
  shows "Inr (fst (POST cfg w (Inr b))) = fst (finish cfg w m sourced)
       \<and> snd (POST cfg w (Inr b)) = t @ snd (finish cfg w m sourced)"
  using assms(3)
proof (elim disjE conjE)
  assume a: "method b = Some ''apollo''" "fst (searchApolloLeads cfg w) = Inr sourced"
    "m = ''apollo''" "t = snd (searchApolloLeads cfg w)"
  from a(2) have "APIFY_API_TOKENS cfg \<noteq> []" by (rule searchApolloLeads_configured)
  with a(1) assms(1,2) have "POST_try cfg w (Inr b) =
      io_bind (searchApolloLeads cfg w) (finish cfg w ''apollo'')"
    by (rule POST_try_apollo)
  with a(2-) have "POST_try cfg w (Inr b) =
      (fst (finish cfg w m sourced), t @ snd (finish cfg w m sourced))"
    by (simp add: io_bind_fst_Inr)
  then show ?thesis
    by (simp add: POST_def finish_fst)
next
  assume a: "method b = Some ''google_apify''" "fst (searchGoogleLeads cfg w) = Inr sourced"
    "m = ''google_apify''" "t = snd (searchGoogleLeads cfg w)"
  from a(2) have "env_set (GOOGLE_API_KEY cfg)" "env_set (GOOGLE_CSE_ID cfg)"
    "APIFY_API_TOKENS cfg \<noteq> []"
    using searchGoogleLeads_configured by blast+
  with a(1) assms(1,2) have "POST_try cfg w (Inr b) =
      io_bind (searchGoogleLeads cfg w) (finish cfg w ''google_apify'')"
    by (intro POST_try_google)
  with a(2-) have "POST_try cfg w (Inr b) =
      (fst (finish cfg w m sourced), t @ snd (finish cfg w m sourced))"
    by (simp add: io_bind_fst_Inr)
  then show ?thesis
    by (simp add: POST_def finish_fst)
qed


text \<open>
  C7: a request without a (non-empty) \<^verbatim>\<open>method\<close>, without \<^verbatim>\<open>jobTitles\<close> or without
  \<^verbatim>\<open>locations\<close> is answered at once with status 400 and the message
  \<^verbatim>\<open>Missing required parameters\<close>, and the handler has no effect at all: no request
  goes to the search engine or the scrape provider.
\<close>

theorem missing_input_is_rejected:
  assumes "\<not> given_str (method b) \<or> jobTitles b = None \<or> locations b = None"
  shows "POST cfg w (Inr b) =
     (Response 400 [(''status'', JStr ''error''), (''message'', JStr ''Missing required parameters'')],
      [])"
proof -
  from assms have "POST_try cfg w (Inr b) =
      ret (Response 400 (error_body ''Missing required parameters''))"
    unfolding POST_try_def by (simp only: lift_def io_bind_Inr if_True fst_conv snd_conv ret_def append_Nil)
  then show ?thesis
    by (simp add: POST_def ret_def error_body_def)
qed

theorem missing_input_is_rejected_witness:
  "locations (rq_apollo\<lparr>locations := None\<rparr>) = None \<and>
   POST cfg_ex w_ex (Inr (rq_apollo\<lparr>locations := None\<rparr>)) =
     (Response 400 [(''status'', JStr ''error''), (''message'', JStr ''Missing required parameters'')],
      [])"
proof -
  have h: "locations (rq_apollo\<lparr>locations := None\<rparr>) = None" by simp
  then have "\<not> given_str (method (rq_apollo\<lparr>locations := None\<rparr>))
      \<or> jobTitles (rq_apollo\<lparr>locations := None\<rparr>) = None
      \<or> locations (rq_apollo\<lparr>locations := None\<rparr>) = None"
    by blast
  from h missing_input_is_rejected [OF this, of cfg_ex w_ex] show ?thesis by blast
qed

text \<open>
  C4: when sourcing returns an empty list, the handler answers with status 200 and
  \<^verbatim>\<open>status: 'success'\<close>, an empty \<^verbatim>\<open>leads\<close> array and \<^verbatim>\<open>count: 0\<close>; scoring and
  saving add no effect to those of sourcing (the loop has nothing to score, and the
  insert is skipped for an empty batch).
\<close>

theorem empty_sourcing_succeeds:
  assumes "jobTitles b \<noteq> None" "locations b \<noteq> None"
    and "(method b = Some ''apollo'' \<and> fst (searchApolloLeads cfg w) = Inr [])
       \<or> (method b = Some ''google_apify'' \<and> fst (searchGoogleLeads cfg w) = Inr [])"
  shows "\<exists>m. method b = Some m
     \<and> fst (POST cfg w (Inr b)) =
         Response 200
           [(''status'', JStr ''success''),
            (''data'', JObj [(''leads'', JArr []), (''count'', JNum 0), (''method'', JStr m),
                            (''timestamp'', JStr (respondedAt w))])]
     \<and> outcome (POST cfg w (Inr b)) = JStr ''success''
     \<and> snd (POST cfg w (Inr b)) =
         (if m = ''apollo'' then snd (searchApolloLeads cfg w) else snd (searchGoogleLeads cfg w))"
proof -
  define m where "m = (if method b = Some ''apollo'' then ''apollo'' else ''google_apify'')"
  define t where "t = (if m = ''apollo'' then snd (searchApolloLeads cfg w)
                       else snd (searchGoogleLeads cfg w))"
  from assms(3) have "(method b = Some ''apollo'' \<and> fst (searchApolloLeads cfg w) = Inr [] \<and> m = ''apollo''
            \<and> t = snd (searchApolloLeads cfg w))
       \<or> (method b = Some ''google_apify'' \<and> fst (searchGoogleLeads cfg w) = Inr []
            \<and> m = ''google_apify'' \<and> t = snd (searchGoogleLeads cfg w))"
    by (auto simp: m_def t_def)
  from POST_sourced [OF assms(1,2) this]
  have "Inr (fst (POST cfg w (Inr b))) = fst (finish cfg w m [])"
    and "snd (POST cfg w (Inr b)) = t @ snd (finish cfg w m [])"
    by simp_all
  then have r: "fst (POST cfg w (Inr b)) =
         Response 200
           [(''status'', JStr ''success''),
            (''data'', JObj [(''leads'', JArr []), (''count'', JNum 0), (''method'', JStr m),
                            (''timestamp'', JStr (respondedAt w))])]"
    and tr: "snd (POST cfg w (Inr b)) = t"
    by (simp_all add: finish_fst finish_snd saveLeads_def)
  from r have "outcome (POST cfg w (Inr b)) = JStr ''success''"
    by (simp add: outcome_def obj_get_def)
  moreover from assms(3) have "method b = Some m"
    by (auto simp: m_def)
  ultimately show ?thesis
    using r tr by (auto simp: t_def)
qed


lemmas ex_defs = w_no_results_def w_ex_def cfg_ex_def run_started_def status_reply_def
  rq_apollo_def rq_google_def w_run_failed_def w_run_pending_def w_poll_rejected_def w_insert_fails_def
  w_insert_error_def
  content_reply_def parse_ex_def

lemmas io_defs = io_bind_def eff_def throw_def ret_def lift_def ebind_def log_rethrow_def
  fetch_json_def fetch_ok_json_def get_prop_def nullish_def obj_get_def

lemma searchApolloLeads_w_no_results:
  "searchApolloLeads cfg_ex w_no_results =
     (Inr [], [Fetch ApifyRun, Sleep 2000, Fetch ApifyStatus, Sleep 2000, Fetch ApifyStatus,
               Sleep 2000, Fetch ApifyStatus, Fetch ApifyDataset])"
  by (simp add: searchApolloLeads_def startRun_def pollLoop.simps maxAttempts_def readStatus_def
      fetchResults_def ex_defs io_defs)

theorem empty_sourcing_succeeds_witness:
  "fst (searchApolloLeads cfg_ex w_no_results) = Inr []
   \<and> fst (POST cfg_ex w_no_results (Inr rq_apollo)) =
         Response 200
           [(''status'', JStr ''success''),
            (''data'', JObj [(''leads'', JArr []), (''count'', JNum 0), (''method'', JStr ''apollo''),
                            (''timestamp'', JStr ''2025-01-01T00:01:00.000Z'')])]
   \<and> snd (POST cfg_ex w_no_results (Inr rq_apollo)) =
         [Fetch ApifyRun, Sleep 2000, Fetch ApifyStatus, Sleep 2000, Fetch ApifyStatus,
          Sleep 2000, Fetch ApifyStatus, Fetch ApifyDataset]"
proof -
  have h1: "jobTitles rq_apollo \<noteq> None" "locations rq_apollo \<noteq> None"
    and m: "method rq_apollo = Some ''apollo''"
    by (simp_all add: rq_apollo_def)
  have h2: "fst (searchApolloLeads cfg_ex w_no_results) = Inr []"
    by (simp add: searchApolloLeads_w_no_results)
  with m have "(method rq_apollo = Some ''apollo'' \<and> fst (searchApolloLeads cfg_ex w_no_results) = Inr [])
       \<or> (method rq_apollo = Some ''google_apify'' \<and> fst (searchGoogleLeads cfg_ex w_no_results) = Inr [])"
    by blast
  from empty_sourcing_succeeds [OF h1 this] obtain m' where m': "method rq_apollo = Some m'"
    "fst (POST cfg_ex w_no_results (Inr rq_apollo)) =
         Response 200
           [(''status'', JStr ''success''),
            (''data'', JObj [(''leads'', JArr []), (''count'', JNum 0), (''method'', JStr m'),
                            (''timestamp'', JStr (respondedAt w_no_results))])]"
    "snd (POST cfg_ex w_no_results (Inr rq_apollo)) =
         (if m' = ''apollo'' then snd (searchApolloLeads cfg_ex w_no_results)
          else snd (searchGoogleLeads cfg_ex w_no_results))"
    by blast
  from m m'(1) have "m' = ''apollo''" by simp
  moreover have "respondedAt w_no_results = ''2025-01-01T00:01:00.000Z''"
    by (simp add: w_no_results_def w_ex_def)
  ultimately show ?thesis
    using m'(2,3) h2 by (simp add: searchApolloLeads_w_no_results)
qed

text \<open>Nothing before the insert looks at what the insert will do.\<close>

lemma map_records_insert:
  "map_records mk (w\<lparr>supabaseInsert := r\<rparr>) k ps = map_records mk w k ps"
  by (induction ps arbitrary: k) simp_all

lemma map_results_insert:
  "map_results mk (w\<lparr>supabaseInsert := r\<rparr>) v = map_results mk w v"
  by (cases v) (simp_all add: map_records_insert)

lemma readStatus_insert: "readStatus (w\<lparr>supabaseInsert := r\<rparr>) a = readStatus w a"
  by (simp add: readStatus_def)

lemma fetchResults_insert: "fetchResults (w\<lparr>supabaseInsert := r\<rparr>) mk = fetchResults w mk"
  by (simp add: fetchResults_def map_results_insert)

lemma startRun_insert: "startRun (w\<lparr>supabaseInsert := r\<rparr>) = startRun w"
  by (simp add: startRun_def)

lemma pollLoop_insert:
  "pollLoop (w\<lparr>supabaseInsert := r\<rparr>) mk a = pollLoop w mk a"
proof (induction "maxAttempts - a" arbitrary: a)
  case 0
  then show ?case by (simp add: pollLoop.simps)
next
  case (Suc d)
  then have "a < maxAttempts" "d = maxAttempts - Suc a" by simp_all
  with Suc.hyps(1) [of "Suc a"] show ?case
    by (simp add: pollLoop_unfold readStatus_insert fetchResults_insert cong: if_cong sum.case_cong)
qed

lemma searchApolloLeads_insert:
  "searchApolloLeads cfg (w\<lparr>supabaseInsert := r\<rparr>) = searchApolloLeads cfg w"
  by (simp add: searchApolloLeads_def startRun_insert pollLoop_insert cong: if_cong)

lemma searchGoogleLeads_insert:
  "searchGoogleLeads cfg (w\<lparr>supabaseInsert := r\<rparr>) = searchGoogleLeads cfg w"
  by (simp add: searchGoogleLeads_def startRun_insert pollLoop_insert cong: if_cong)

lemma scoreLeads_insert:
  "scoreLeads (w\<lparr>supabaseInsert := r\<rparr>) k leads = scoreLeads w k leads"
  by (induction leads arbitrary: k) (simp_all add: scoreProfile_def)

lemma scoreProfile_fst:
  "fst (scoreProfile w i) =
     Inr (case scoreProfile_try (jsonParse w) (chatCompletion w i) of
            Inl e \<Rightarrow> failureScore | Inr r \<Rightarrow> r)"
  by (simp add: scoreProfile_def eff_def io_bind_Inr ret_def split: sum.splits)

lemma scoreLeads_Cons:
  "fst (scoreLeads w k (lead # leads)) =
     with_icp lead (case scoreProfile_try (jsonParse w) (chatCompletion w k) of
                      Inl e \<Rightarrow> failureScore | Inr r \<Rightarrow> r)
     # fst (scoreLeads w (Suc k) leads)"
proof -
  obtain r t where rt: "scoreProfile w k = (r, t)" by (cases "scoreProfile w k")
  with scoreProfile_fst [of w k]
  have "r = Inr (case scoreProfile_try (jsonParse w) (chatCompletion w k) of
            Inl e \<Rightarrow> failureScore | Inr r \<Rightarrow> r)" by simp
  with rt show ?thesis
    by (simp split: prod.splits)
qed

lemma length_scoreLeads: "length (fst (scoreLeads w k leads)) = length leads"
  by (induction leads arbitrary: k) (simp_all add: scoreLeads_Cons del: scoreLeads.simps(2))

text \<open>The example run: sourcing, scoring, and the handler as a whole, whatever the
  insert does.\<close>

lemma searchApolloLeads_key:
  "searchApolloLeads (cfg\<lparr>OPENAI_API_KEY := k\<rparr>) w = searchApolloLeads cfg w"
  by (simp add: searchApolloLeads_def)

lemma searchApolloLeads_w_ex: "searchApolloLeads cfg_ex w_ex = (Inr leads_ex, sourcing_ex)"
  by (simp add: searchApolloLeads_def startRun_def pollLoop.simps maxAttempts_def readStatus_def
      fetchResults_def apolloLead_def fullNameOf_def js_or_def trim_def is_ws_def char_of_digits
      leads_ex_def lead_ex_def sourcing_ex_def ex_defs io_defs)

lemma scoreLeads_w_ex: "scoreLeads w_ex 0 leads_ex = (scored_ex, scoring_ex)"
  by (simp add: scoreProfile_def scoreProfile_try_def responseContent_def scoreOfResult_def
      opt_prop_def js_or_def failureScore_def with_icp_def
      leads_ex_def lead_ex_def scored_ex_def scoring_ex_def ex_defs io_defs)

lemma POST_w_ex:
  "POST cfg_ex (w_ex\<lparr>supabaseInsert := r\<rparr>) (Inr rq_apollo) =
     (Response 200
        [(''status'', JStr ''success''),
         (''data'', JObj [(''leads'', JArr (map JObj scored_ex)), (''count'', JNum 3),
                         (''method'', JStr ''apollo''),
                         (''timestamp'', JStr ''2025-01-01T00:01:00.000Z'')])],
      sourcing_ex @ scoring_ex @ saveLeads (w_ex\<lparr>supabaseInsert := r\<rparr>) scored_ex)"
proof -
  let ?w = "w_ex\<lparr>supabaseInsert := r\<rparr>"
  have p: "POST_try cfg_ex ?w (Inr rq_apollo) =
      io_bind (searchApolloLeads cfg_ex ?w) (finish cfg_ex ?w ''apollo'')"
    by (intro POST_try_apollo) (simp_all add: rq_apollo_def cfg_ex_def)
  have k: "env_set (OPENAI_API_KEY cfg_ex)" by (simp add: cfg_ex_def env_set_def)
  have t: "respondedAt ?w = ''2025-01-01T00:01:00.000Z''" by (simp add: w_ex_def)
  have n: "length scored_ex = 3" by (simp add: scored_ex_def leads_ex_def)
  have "io_bind (searchApolloLeads cfg_ex ?w) (finish cfg_ex ?w ''apollo'') =
     (Inr (Response 200
        [(''status'', JStr ''success''),
         (''data'', JObj [(''leads'', JArr (map JObj scored_ex)), (''count'', JNum 3),
                         (''method'', JStr ''apollo''),
                         (''timestamp'', JStr ''2025-01-01T00:01:00.000Z'')])]),
      sourcing_ex @ scoring_ex @ saveLeads ?w scored_ex)"
    by (simp add: searchApolloLeads_insert searchApolloLeads_w_ex io_bind_Inr finish_def k
        scoreLeads_insert scoreLeads_w_ex t n)
  then show ?thesis
    unfolding POST_def p by simp
qed

lemma saveLeads_cases:
  assumes "leads \<noteq> []"
  shows "(\<forall>e. supabaseInsert w = Inl e \<longrightarrow>
            saveLeads w leads = [Insert leads, ConsoleError ''Error saving leads to database:''])
     \<and> (\<forall>res. supabaseInsert w = Inr res \<and> nullish res \<longrightarrow>
            saveLeads w leads = [Insert leads, ConsoleError ''Error saving leads to database:''])
     \<and> (\<forall>res. supabaseInsert w = Inr res \<and> truthy (field res ''error'') \<longrightarrow>
            saveLeads w leads = [Insert leads, ConsoleError ''Supabase insert error:''])
     \<and> (\<forall>res. supabaseInsert w = Inr res \<and> \<not> nullish res \<and> \<not> truthy (field res ''error'') \<longrightarrow>
            saveLeads w leads = [Insert leads])"
proof (intro conjI allI impI)
  fix e assume "supabaseInsert w = Inl e"
  with assms show "saveLeads w leads = [Insert leads, ConsoleError ''Error saving leads to database:'']"
    by (simp add: saveLeads_def ebind_def)
next
  fix res assume "supabaseInsert w = Inr res \<and> nullish res"
  with assms show "saveLeads w leads = [Insert leads, ConsoleError ''Error saving leads to database:'']"
    by (simp add: saveLeads_def ebind_def get_prop_def)
next
  fix res assume a: "supabaseInsert w = Inr res \<and> truthy (field res ''error'')"
  then have "\<not> nullish res" by (auto simp: nullish_def)
  with a assms show "saveLeads w leads = [Insert leads, ConsoleError ''Supabase insert error:'']"
    by (simp add: saveLeads_def ebind_def get_prop_def)
next
  fix res assume "supabaseInsert w = Inr res \<and> \<not> nullish res \<and> \<not> truthy (field res ''error'')"
  with assms show "saveLeads w leads = [Insert leads]"
    by (simp add: saveLeads_def ebind_def get_prop_def)
qed

text \<open>
  C2, amended: after sourcing has returned a non-empty batch and the batch has been
  scored, a failure to persist it is only logged. Whether the insert resolves to a
  result that carries an error or throws, the handler answers with status 200 and
  \<^verbatim>\<open>status: 'success'\<close>, and the answer carries the whole batch, as scored, and its
  count; it is the answer the handler gives whatever the insert does. The effects of
  the request are those of sourcing, those of scoring, the insert of the batch, and
  last one log line: \<^verbatim>\<open>Supabase insert error:\<close> when the result carries an error,
  \<^verbatim>\<open>Error saving leads to database:\<close> when the insert throws; there is no log line
  when the insert succeeds.
\<close>

theorem persistence_failure_is_only_logged:
  assumes "jobTitles b \<noteq> None" "locations b \<noteq> None"
    and "(method b = Some ''apollo'' \<and> searchApolloLeads cfg w = (Inr sourced, t))
       \<or> (method b = Some ''google_apify'' \<and> searchGoogleLeads cfg w = (Inr sourced, t))"
    and "sourced \<noteq> []"
    and "(leads, scoring) =
       (if env_set (OPENAI_API_KEY cfg) then scoreLeads w 0 sourced else (sourced, []))"
  shows "\<exists>m. method b = Some m
     \<and> length leads = length sourced
     \<and> fst (POST cfg w (Inr b)) =
         Response 200
           [(''status'', JStr ''success''),
            (''data'', JObj [(''leads'', JArr (map JObj leads)),
                            (''count'', JNum (int (length leads))),
                            (''method'', JStr m),
                            (''timestamp'', JStr (respondedAt w))])]
     \<and> outcome (POST cfg w (Inr b)) = JStr ''success''
     \<and> fst (POST cfg (w\<lparr>supabaseInsert := r\<rparr>) (Inr b)) = fst (POST cfg w (Inr b))
     \<and> (\<forall>res. supabaseInsert w = Inr res \<and> truthy (field res ''error'') \<longrightarrow>
           snd (POST cfg w (Inr b)) =
             t @ scoring @ [Insert leads, ConsoleError ''Supabase insert error:''])
     \<and> (\<forall>e. supabaseInsert w = Inl e \<longrightarrow>
           snd (POST cfg w (Inr b)) =
             t @ scoring @ [Insert leads, ConsoleError ''Error saving leads to database:''])
     \<and> (\<forall>res. supabaseInsert w = Inr res \<and> \<not> nullish res \<and> \<not> truthy (field res ''error'') \<longrightarrow>
           snd (POST cfg w (Inr b)) = t @ scoring @ [Insert leads])"
proof -
  define m where "m = (if method b = Some ''apollo'' then ''apollo'' else ''google_apify'')"
  let ?w = "w\<lparr>supabaseInsert := r\<rparr>"
  from assms(3) have src1: "(method b = Some ''apollo'' \<and> fst (searchApolloLeads cfg w) = Inr sourced
            \<and> m = ''apollo'' \<and> t = snd (searchApolloLeads cfg w))
       \<or> (method b = Some ''google_apify'' \<and> fst (searchGoogleLeads cfg w) = Inr sourced
            \<and> m = ''google_apify'' \<and> t = snd (searchGoogleLeads cfg w))"
    by (auto simp: m_def)
  then have src2: "(method b = Some ''apollo'' \<and> fst (searchApolloLeads cfg ?w) = Inr sourced
            \<and> m = ''apollo'' \<and> t = snd (searchApolloLeads cfg ?w))
       \<or> (method b = Some ''google_apify'' \<and> fst (searchGoogleLeads cfg ?w) = Inr sourced
            \<and> m = ''google_apify'' \<and> t = snd (searchGoogleLeads cfg ?w))"
    by (simp only: searchApolloLeads_insert searchGoogleLeads_insert)
  from assms(5) [symmetric] have leads: "leads = (if env_set (OPENAI_API_KEY cfg)
        then fst (scoreLeads w 0 sourced) else sourced)"
    and scoring: "scoring = (if env_set (OPENAI_API_KEY cfg)
        then snd (scoreLeads w 0 sourced) else [])"
    by (simp_all split: if_splits)
  have len: "length leads = length sourced"
    by (simp add: leads length_scoreLeads)
  with assms(4) have ne: "leads \<noteq> []" by auto
  from POST_sourced [OF assms(1,2) src1]
  have p1: "Inr (fst (POST cfg w (Inr b))) = fst (finish cfg w m sourced)"
    and t1: "snd (POST cfg w (Inr b)) = t @ snd (finish cfg w m sourced)"
    by simp_all
  from POST_sourced [OF assms(1,2) src2]
  have p2: "Inr (fst (POST cfg ?w (Inr b))) = fst (finish cfg ?w m sourced)"
    by simp
  have "fst (finish cfg ?w m sourced) = fst (finish cfg w m sourced)"
    by (simp add: finish_fst scoreLeads_insert)
  with p1 p2 have "Inr (fst (POST cfg ?w (Inr b))) = (Inr (fst (POST cfg w (Inr b))) :: exn + response)"
    by (simp only:)
  then have same: "fst (POST cfg ?w (Inr b)) = fst (POST cfg w (Inr b))"
    by (simp only: sum.inject)
  from p1 have r: "fst (POST cfg w (Inr b)) =
         Response 200
           [(''status'', JStr ''success''),
            (''data'', JObj [(''leads'', JArr (map JObj leads)),
                            (''count'', JNum (int (length leads))),
                            (''method'', JStr m),
                            (''timestamp'', JStr (respondedAt w))])]"
    by (simp add: finish_fst leads)
  then have o: "outcome (POST cfg w (Inr b)) = JStr ''success''"
    by (simp add: outcome_def obj_get_def)
  from t1 have tr: "snd (POST cfg w (Inr b)) = t @ scoring @ saveLeads w leads"
    by (simp add: finish_snd leads scoring)
  from assms(3) have mm: "method b = Some m"
    by (auto simp: m_def)
  note sv = saveLeads_cases [OF ne, of w]
  have a: "\<forall>res. supabaseInsert w = Inr res \<and> truthy (field res ''error'') \<longrightarrow>
           snd (POST cfg w (Inr b)) =
             t @ scoring @ [Insert leads, ConsoleError ''Supabase insert error:'']"
    using sv tr by simp
  have b: "\<forall>e. supabaseInsert w = Inl e \<longrightarrow>
           snd (POST cfg w (Inr b)) =
             t @ scoring @ [Insert leads, ConsoleError ''Error saving leads to database:'']"
    using sv tr by simp
  have c: "\<forall>res. supabaseInsert w = Inr res \<and> \<not> nullish res \<and> \<not> truthy (field res ''error'') \<longrightarrow>
           snd (POST cfg w (Inr b)) = t @ scoring @ [Insert leads]"
    using sv tr by simp
  from mm len r o same a b c show ?thesis by blast
qed

lemma insert_w_ex:
  "supabaseInsert w_insert_error =
     Inr (JObj [(''error'', JObj [(''message'', JStr ''permission denied for table leads'')]),
                (''data'', JNull)])"
  "supabaseInsert w_insert_fails = Inl (Error ''connection refused'')"
  by (simp_all add: w_insert_error_def w_insert_fails_def)

lemma moduleInit_cfg_ex: "moduleInit cfg_ex = Inr ()"
  by (simp add: moduleInit_def createClient_def newOpenAI_def cfg_ex_def env_set_def ebind_def)

text \<open>
  C2, as the spec states it: a failure to persist ends the run in \<^verbatim>\<open>error\<close>, never
  in success. This fails: in the example run whose insert resolves to a result that
  carries an error, and in the one whose insert throws, the handler answers with
  status 200 and \<^verbatim>\<open>status: 'success'\<close>, and the failure is a log line.
\<close>

theorem persistence_failure_reports_success:
  "moduleInit cfg_ex = Inr ()
   \<and> truthy (field (JObj [(''error'', JObj [(''message'', JStr ''permission denied for table leads'')]),
                          (''data'', JNull)]) ''error'')
   \<and> supabaseInsert w_insert_error =
       Inr (JObj [(''error'', JObj [(''message'', JStr ''permission denied for table leads'')]),
                  (''data'', JNull)])
   \<and> POST cfg_ex w_insert_error (Inr rq_apollo) =
       (Response 200
          [(''status'', JStr ''success''),
           (''data'', JObj [(''leads'', JArr (map JObj scored_ex)), (''count'', JNum 3),
                           (''method'', JStr ''apollo''),
                           (''timestamp'', JStr ''2025-01-01T00:01:00.000Z'')])],
        sourcing_ex @ scoring_ex @ [Insert scored_ex, ConsoleError ''Supabase insert error:''])
   \<and> outcome (POST cfg_ex w_insert_error (Inr rq_apollo)) = JStr ''success''
   \<and> supabaseInsert w_insert_fails = Inl (Error ''connection refused'')
   \<and> POST cfg_ex w_insert_fails (Inr rq_apollo) =
       (Response 200
          [(''status'', JStr ''success''),
           (''data'', JObj [(''leads'', JArr (map JObj scored_ex)), (''count'', JNum 3),
                           (''method'', JStr ''apollo''),
                           (''timestamp'', JStr ''2025-01-01T00:01:00.000Z'')])],
        sourcing_ex @ scoring_ex @ [Insert scored_ex, ConsoleError ''Error saving leads to database:''])
   \<and> outcome (POST cfg_ex w_insert_fails (Inr rq_apollo)) = JStr ''success''"
proof -
  have ne: "scored_ex \<noteq> []" by (simp add: scored_ex_def leads_ex_def)
  have 1: "POST cfg_ex w_insert_error (Inr rq_apollo) =
       (Response 200
          [(''status'', JStr ''success''),
           (''data'', JObj [(''leads'', JArr (map JObj scored_ex)), (''count'', JNum 3),
                           (''method'', JStr ''apollo''),
                           (''timestamp'', JStr ''2025-01-01T00:01:00.000Z'')])],
        sourcing_ex @ scoring_ex @ [Insert scored_ex, ConsoleError ''Supabase insert error:''])"
    unfolding w_insert_error_def POST_w_ex using ne
    by (simp add: saveLeads_def ebind_def get_prop_def nullish_def obj_get_def)
  have 2: "POST cfg_ex w_insert_fails (Inr rq_apollo) =
       (Response 200
          [(''status'', JStr ''success''),
           (''data'', JObj [(''leads'', JArr (map JObj scored_ex)), (''count'', JNum 3),
                           (''method'', JStr ''apollo''),
                           (''timestamp'', JStr ''2025-01-01T00:01:00.000Z'')])],
        sourcing_ex @ scoring_ex @ [Insert scored_ex, ConsoleError ''Error saving leads to database:''])"
    unfolding w_insert_fails_def POST_w_ex using ne
    by (simp add: saveLeads_def ebind_def)
  have 3: "outcome (POST cfg_ex w_insert_error (Inr rq_apollo)) = JStr ''success''"
    "outcome (POST cfg_ex w_insert_fails (Inr rq_apollo)) = JStr ''success''"
    unfolding 1 2 by (simp_all add: outcome_def obj_get_def)
  have 4: "truthy (field (JObj [(''error'', JObj [(''message'', JStr ''permission denied for table leads'')]),
                          (''data'', JNull)]) ''error'')"
    by (simp add: obj_get_def)
  from moduleInit_cfg_ex 1 2 3 4 insert_w_ex show ?thesis by simp
qed

theorem persistence_failure_is_only_logged_witness:
  "searchApolloLeads cfg_ex w_insert_error = (Inr leads_ex, sourcing_ex)
   \<and> leads_ex \<noteq> []
   \<and> (scored_ex, scoring_ex) =
       (if env_set (OPENAI_API_KEY cfg_ex) then scoreLeads w_insert_error 0 leads_ex else (leads_ex, []))
   \<and> (\<exists>res. supabaseInsert w_insert_error = Inr res \<and> truthy (field res ''error''))
   \<and> length scored_ex = length leads_ex
   \<and> fst (POST cfg_ex w_insert_error (Inr rq_apollo)) =
         Response 200
           [(''status'', JStr ''success''),
            (''data'', JObj [(''leads'', JArr (map JObj scored_ex)),
                            (''count'', JNum (int (length scored_ex))),
                            (''method'', JStr ''apollo''),
                            (''timestamp'', JStr (respondedAt w_insert_error))])]
   \<and> outcome (POST cfg_ex w_insert_error (Inr rq_apollo)) = JStr ''success''
   \<and> fst (POST cfg_ex (w_insert_error\<lparr>supabaseInsert := Inr (JObj [(''error'', JNull)])\<rparr>) (Inr rq_apollo)) =
       fst (POST cfg_ex w_insert_error (Inr rq_apollo))
   \<and> snd (POST cfg_ex w_insert_error (Inr rq_apollo)) =
       sourcing_ex @ scoring_ex @ [Insert scored_ex, ConsoleError ''Supabase insert error:'']
   \<and> searchApolloLeads cfg_ex w_insert_fails = (Inr leads_ex, sourcing_ex)
   \<and> (scored_ex, scoring_ex) =
       (if env_set (OPENAI_API_KEY cfg_ex) then scoreLeads w_insert_fails 0 leads_ex else (leads_ex, []))
   \<and> (\<exists>e. supabaseInsert w_insert_fails = Inl e)
   \<and> snd (POST cfg_ex w_insert_fails (Inr rq_apollo)) =
       sourcing_ex @ scoring_ex @ [Insert scored_ex, ConsoleError ''Error saving leads to database:'']
   \<and> (\<exists>res. supabaseInsert w_ex = Inr res \<and> \<not> nullish res \<and> \<not> truthy (field res ''error''))
   \<and> snd (POST cfg_ex w_ex (Inr rq_apollo)) = sourcing_ex @ scoring_ex @ [Insert scored_ex]"
proof -
  have h: "jobTitles rq_apollo \<noteq> None" "locations rq_apollo \<noteq> None"
    and m: "method rq_apollo = Some ''apollo''"
    by (simp_all add: rq_apollo_def)
  have ne: "leads_ex \<noteq> []" by (simp add: leads_ex_def)
  have k: "env_set (OPENAI_API_KEY cfg_ex)" by (simp add: cfg_ex_def env_set_def)
  have s: "searchApolloLeads cfg_ex w_insert_error = (Inr leads_ex, sourcing_ex)"
    "searchApolloLeads cfg_ex w_insert_fails = (Inr leads_ex, sourcing_ex)"
    by (simp_all add: w_insert_error_def w_insert_fails_def searchApolloLeads_insert
        searchApolloLeads_w_ex)
  have sc: "(scored_ex, scoring_ex) =
       (if env_set (OPENAI_API_KEY cfg_ex) then scoreLeads w_insert_error 0 leads_ex else (leads_ex, []))"
    "(scored_ex, scoring_ex) =
       (if env_set (OPENAI_API_KEY cfg_ex) then scoreLeads w_insert_fails 0 leads_ex else (leads_ex, []))"
    "(scored_ex, scoring_ex) =
       (if env_set (OPENAI_API_KEY cfg_ex) then scoreLeads w_ex 0 leads_ex else (leads_ex, []))"
    by (simp_all add: k w_insert_error_def w_insert_fails_def scoreLeads_insert scoreLeads_w_ex)
  have i1: "\<exists>res. supabaseInsert w_insert_error = Inr res \<and> truthy (field res ''error'')"
    by (simp add: w_insert_error_def obj_get_def)
  have i2: "\<exists>e. supabaseInsert w_insert_fails = Inl e"
    by (simp add: w_insert_fails_def)
  have i3: "\<exists>res. supabaseInsert w_ex = Inr res \<and> \<not> nullish res \<and> \<not> truthy (field res ''error'')"
    by (simp add: w_ex_def nullish_def obj_get_def)
  from m s(1) have src1: "(method rq_apollo = Some ''apollo''
        \<and> searchApolloLeads cfg_ex w_insert_error = (Inr leads_ex, sourcing_ex))
       \<or> (method rq_apollo = Some ''google_apify''
        \<and> searchGoogleLeads cfg_ex w_insert_error = (Inr leads_ex, sourcing_ex))"
    by blast
  from m s(2) have src2: "(method rq_apollo = Some ''apollo''
        \<and> searchApolloLeads cfg_ex w_insert_fails = (Inr leads_ex, sourcing_ex))
       \<or> (method rq_apollo = Some ''google_apify''
        \<and> searchGoogleLeads cfg_ex w_insert_fails = (Inr leads_ex, sourcing_ex))"
    by blast
  from m searchApolloLeads_w_ex have src3: "(method rq_apollo = Some ''apollo''
        \<and> searchApolloLeads cfg_ex w_ex = (Inr leads_ex, sourcing_ex))
       \<or> (method rq_apollo = Some ''google_apify''
        \<and> searchGoogleLeads cfg_ex w_ex = (Inr leads_ex, sourcing_ex))"
    by blast
  from persistence_failure_is_only_logged [OF h src1 ne sc(1), of "Inr (JObj [(''error'', JNull)])"] m i1
  have a: "length scored_ex = length leads_ex"
    "fst (POST cfg_ex w_insert_error (Inr rq_apollo)) =
         Response 200
           [(''status'', JStr ''success''),
            (''data'', JObj [(''leads'', JArr (map JObj scored_ex)),
                            (''count'', JNum (int (length scored_ex))),
                            (''method'', JStr ''apollo''),
                            (''timestamp'', JStr (respondedAt w_insert_error))])]"
    "outcome (POST cfg_ex w_insert_error (Inr rq_apollo)) = JStr ''success''"
    "fst (POST cfg_ex (w_insert_error\<lparr>supabaseInsert := Inr (JObj [(''error'', JNull)])\<rparr>) (Inr rq_apollo)) =
       fst (POST cfg_ex w_insert_error (Inr rq_apollo))"
    "snd (POST cfg_ex w_insert_error (Inr rq_apollo)) =
       sourcing_ex @ scoring_ex @ [Insert scored_ex, ConsoleError ''Supabase insert error:'']"
    by auto
  from persistence_failure_is_only_logged [OF h src2 ne sc(2), of "Inr (JObj [(''error'', JNull)])"] i2
  have b: "snd (POST cfg_ex w_insert_fails (Inr rq_apollo)) =
       sourcing_ex @ scoring_ex @ [Insert scored_ex, ConsoleError ''Error saving leads to database:'']"
    by auto
  from persistence_failure_is_only_logged [OF h src3 ne sc(3), of "Inr (JObj [(''error'', JNull)])"] i3
  have c: "snd (POST cfg_ex w_ex (Inr rq_apollo)) = sourcing_ex @ scoring_ex @ [Insert scored_ex]"
    by auto
  from s ne sc(1,2) i1 i2 i3 a b c show ?thesis by blast
qed

text \<open>Sourcing through the search engine, once the search has found profile links
  and the enrichment run has been started: what is left is the polling.\<close>

lemma linkedinUrls_Nil: "linkedinUrls (JArr []) = Inr []"
  by (simp add: ebind_def)

lemma searchGoogleLeads_enrich:
  assumes "env_set (GOOGLE_API_KEY cfg)" "env_set (GOOGLE_CSE_ID cfg)" "APIFY_API_TOKENS cfg \<noteq> []"
    and "googleSearch w = Responds True st txt (Inr sd)"
    and "get_prop sd ''items'' = Inr (JArr items)"
    and "linkedinUrls (JArr items) = Inr urls" "urls \<noteq> []"
    and "fst (startRun w) = Inr runId"
  shows "searchGoogleLeads cfg w =
     log_rethrow ''Google search error:''
       (fst (pollLoop w googleLead 0),
        Fetch GoogleSearch # Fetch ApifyRun # snd (pollLoop w googleLead 0))"
proof -
  from assms(6,7) have "items \<noteq> []"
    using linkedinUrls_Nil by auto
  then have len: "JNum (int (length items)) \<noteq> JNum 0" by simp
  have s: "fetch_ok_json GoogleSearch ''Google Search API error: '' (googleSearch w) =
      (Inr sd, [Fetch GoogleSearch])"
    by (simp add: assms(4) fetch_ok_json_def eff_def io_bind_Inr lift_def)
  have r: "startRun w = (Inr runId, [Fetch ApifyRun])"
    using assms(8) startRun_snd [of w] by (cases "startRun w") simp
  from assms(1-3) have "searchGoogleLeads cfg w =
     log_rethrow ''Google search error:''
          (io_bind (fetch_ok_json GoogleSearch ''Google Search API error: '' (googleSearch w))
            (\<lambda>searchData.
          io_bind (lift (get_prop searchData ''items'')) (\<lambda>items.
          if \<not> truthy items then ret []
          else
            io_bind (lift (js_length items)) (\<lambda>n.
            if n = JNum 0 then ret []
            else
              io_bind (lift (linkedinUrls items)) (\<lambda>urls.
              if length urls = 0 then ret []
              else io_bind (startRun w) (\<lambda>runId. pollLoop w googleLead 0))))))"
    unfolding searchGoogleLeads_def by simp
  also have "\<dots> = log_rethrow ''Google search error:''
       (fst (pollLoop w googleLead 0),
        Fetch GoogleSearch # Fetch ApifyRun # snd (pollLoop w googleLead 0))"
    using len assms(7)
    by (simp add: s r assms(5,6) io_bind_Inr lift_def del: linkedinUrls.simps)
  finally show ?thesis .
qed

text \<open>
  C3, as the spec states it: when the enrichment run fails, the search-derived method
  still completes with the leads it has. This fails: in the example run whose
  enrichment run reports \<^verbatim>\<open>FAILED\<close>, the handler answers with status 500 and
  \<^verbatim>\<open>status: 'error'\<close>, and nothing is scored, saved or returned.
\<close>

theorem enrichment_failure_reports_error:
  "POST cfg_ex w_run_failed (Inr rq_google) =
     (Response 500
        [(''status'', JStr ''error''), (''message'', JStr ''Apify actor run failed''),
         (''timestamp'', JStr ''2025-01-01T00:01:00.000Z'')],
      [Fetch GoogleSearch, Fetch ApifyRun, Sleep 2000, Fetch ApifyStatus,
       ConsoleError ''Google search error:'', ConsoleError ''Lead generation error:''])"
  by (simp add: POST_def POST_try_def given_str_def env_set_def
      searchGoogleLeads_def startRun_def pollLoop.simps maxAttempts_def readStatus_def
      ex_defs io_defs)

text \<open>
  C3, amended: for the search-derived method, once the search has found profile links
  and the enrichment run has been started, a run that reports \<^verbatim>\<open>FAILED\<close> at request
  \<open>k\<close>, after \<open>k\<close> requests that had to go round again, or that has not finished after
  \<open>k = 30\<close> requests, ends the request in error: status 500, \<^verbatim>\<open>status: 'error'\<close>, the
  message \<^verbatim>\<open>Apify actor run failed\<close> or \<^verbatim>\<open>Apify actor run timeout\<close>; the effects are
  the search, the start of the run, the polls and two log lines, so that no lead is
  scored, saved or returned.
\<close>

theorem enrichment_failure_aborts:
  assumes "method b = Some ''google_apify''" "jobTitles b \<noteq> None" "locations b \<noteq> None"
    and "env_set (GOOGLE_API_KEY cfg)" "env_set (GOOGLE_CSE_ID cfg)" "APIFY_API_TOKENS cfg \<noteq> []"
    and "googleSearch w = Responds True st txt (Inr sd)"
    and "get_prop sd ''items'' = Inr (JArr items)"
    and "linkedinUrls (JArr items) = Inr urls" "urls \<noteq> []"
    and "fst (startRun w) = Inr runId"
    and "k \<le> maxAttempts" "\<forall>j<k. pending w j"
    and "k < maxAttempts \<longrightarrow> fst (readStatus w k) = Inr (JStr ''FAILED'')"
  shows "POST cfg w (Inr b) =
     (Response 500
        [(''status'', JStr ''error''),
         (''message'', JStr (if k < maxAttempts then ''Apify actor run failed''
                             else ''Apify actor run timeout'')),
         (''timestamp'', JStr (respondedAt w))],
      Fetch GoogleSearch # Fetch ApifyRun #
      concat (replicate (if k < maxAttempts then Suc k else k) [Sleep 2000, Fetch ApifyStatus])
      @ [ConsoleError ''Google search error:'', ConsoleError ''Lead generation error:''])"
proof -
  let ?msg = "if k < maxAttempts then ''Apify actor run failed'' else ''Apify actor run timeout''"
  let ?n = "if k < maxAttempts then Suc k else k"
  have "pollLoop w googleLead 0 = (Inl (Error ?msg), polls ?n)"
    using assms(12-14) by (rule pollLoop_gives_up)
  with searchGoogleLeads_enrich [OF assms(4-11)]
  have "searchGoogleLeads cfg w =
      (Inl (Error ?msg), Fetch GoogleSearch # Fetch ApifyRun # polls ?n @ [ConsoleError ''Google search error:''])"
    by (simp add: log_rethrow_Inl)
  with POST_try_google [OF assms(1-6), of w]
  have "POST_try cfg w (Inr b) =
      (Inl (Error ?msg), Fetch GoogleSearch # Fetch ApifyRun # polls ?n @ [ConsoleError ''Google search error:''])"
    by (simp add: io_bind_Inl)
  then show ?thesis
    by (simp add: POST_def polls_def)
qed


theorem enrichment_failure_aborts_witness:
  "fst (readStatus w_run_failed 0) = Inr (JStr ''FAILED'')
   \<and> POST cfg_ex w_run_failed (Inr rq_google) =
     (Response 500
        [(''status'', JStr ''error''), (''message'', JStr ''Apify actor run failed''),
         (''timestamp'', JStr ''2025-01-01T00:01:00.000Z'')],
      [Fetch GoogleSearch, Fetch ApifyRun, Sleep 2000, Fetch ApifyStatus,
       ConsoleError ''Google search error:'', ConsoleError ''Lead generation error:''])
   \<and> pending w_run_pending 0 \<and> pending w_run_pending 29
   \<and> POST cfg_ex w_run_pending (Inr rq_google) =
     (Response 500
        [(''status'', JStr ''error''), (''message'', JStr ''Apify actor run timeout''),
         (''timestamp'', JStr ''2025-01-01T00:01:00.000Z'')],
      Fetch GoogleSearch # Fetch ApifyRun # concat (replicate 30 [Sleep 2000, Fetch ApifyStatus])
      @ [ConsoleError ''Google search error:'', ConsoleError ''Lead generation error:''])"
proof -
  let ?sd = "JObj [(''items'', JArr [JObj [(''link'', JStr ''https://www.linkedin.com/in/ada'')]])]"
  let ?items = "[JObj [(''link'', JStr ''https://www.linkedin.com/in/ada'')]]"
  let ?urls = "[JStr ''https://www.linkedin.com/in/ada'']"
  have rq: "method rq_google = Some ''google_apify''" "jobTitles rq_google \<noteq> None"
    "locations rq_google \<noteq> None"
    by (simp_all add: rq_google_def rq_apollo_def)
  have cfg: "env_set (GOOGLE_API_KEY cfg_ex)" "env_set (GOOGLE_CSE_ID cfg_ex)"
    "APIFY_API_TOKENS cfg_ex \<noteq> []"
    by (simp_all add: cfg_ex_def env_set_def)
  have items: "get_prop ?sd ''items'' = Inr (JArr ?items)"
    by (simp add: get_prop_def nullish_def obj_get_def)
  have urls: "linkedinUrls (JArr ?items) = Inr ?urls" "?urls \<noteq> []"
    by (simp_all add: ebind_def get_prop_def nullish_def obj_get_def)
  have at: "maxAttempts = 30" by (simp add: maxAttempts_def)

  have s1: "googleSearch w_run_failed = Responds True 200 ''OK'' (Inr ?sd)"
    by (simp add: w_run_failed_def w_ex_def)
  have r1: "fst (startRun w_run_failed) = Inr (JStr ''run1'')"
    by (simp add: startRun_def ex_defs io_defs)
  have f: "fst (readStatus w_run_failed 0) = Inr (JStr ''FAILED'')"
    by (simp add: readStatus_def ex_defs io_defs)
  have k1: "(0::nat) \<le> maxAttempts" "\<forall>j<0. pending w_run_failed j"
    "0 < maxAttempts \<longrightarrow> fst (readStatus w_run_failed 0) = Inr (JStr ''FAILED'')"
    using f by simp_all
  have t1: "respondedAt w_run_failed = ''2025-01-01T00:01:00.000Z''"
    by (simp add: w_run_failed_def w_ex_def)
  from enrichment_failure_aborts [OF rq cfg s1 items urls r1 k1]
  have c1: "POST cfg_ex w_run_failed (Inr rq_google) =
     (Response 500
        [(''status'', JStr ''error''), (''message'', JStr ''Apify actor run failed''),
         (''timestamp'', JStr ''2025-01-01T00:01:00.000Z'')],
      [Fetch GoogleSearch, Fetch ApifyRun, Sleep 2000, Fetch ApifyStatus,
       ConsoleError ''Google search error:'', ConsoleError ''Lead generation error:''])"
    by (simp add: at t1)

  have s2: "googleSearch w_run_pending = Responds True 200 ''OK'' (Inr ?sd)"
    by (simp add: w_run_pending_def w_ex_def)
  have r2: "fst (startRun w_run_pending) = Inr (JStr ''run1'')"
    by (simp add: startRun_def ex_defs io_defs)
  have p: "pending w_run_pending j" for j
    by (simp add: pending_def readStatus_def ex_defs io_defs)
  then have k2: "maxAttempts \<le> maxAttempts" "\<forall>j<maxAttempts. pending w_run_pending j"
    "maxAttempts < maxAttempts \<longrightarrow> fst (readStatus w_run_pending maxAttempts) = Inr (JStr ''FAILED'')"
    by simp_all
  have t2: "respondedAt w_run_pending = ''2025-01-01T00:01:00.000Z''"
    by (simp add: w_run_pending_def w_ex_def)
  from enrichment_failure_aborts [OF rq cfg s2 items urls r2 k2]
  have c2: "POST cfg_ex w_run_pending (Inr rq_google) =
     (Response 500
        [(''status'', JStr ''error''), (''message'', JStr ''Apify actor run timeout''),
         (''timestamp'', JStr ''2025-01-01T00:01:00.000Z'')],
      Fetch GoogleSearch # Fetch ApifyRun # concat (replicate 30 [Sleep 2000, Fetch ApifyStatus])
      @ [ConsoleError ''Google search error:'', ConsoleError ''Lead generation error:''])"
    by (simp only: at t2 less_irrefl if_False)
  from f c1 p [of 0] p [of 29] c2 show ?thesis by blast
qed

section \<open>Properties of scoring\<close>











section \<open>What the answer carries, and when it is given\<close>

lemma fst_io_bind_Inr:
  "fst (io_bind m f) = Inr y \<Longrightarrow> \<exists>x. fst m = Inr x \<and> fst (f x) = Inr y"
  by (cases m, cases "fst m") (auto simp: io_bind_Inl io_bind_Inr)

lemma snd_io_bind:
  "snd (io_bind m f) = snd m @ (case fst m of Inl e \<Rightarrow> [] | Inr x \<Rightarrow> snd (f x))"
  by (cases m, cases "fst m") (auto simp: io_bind_Inl io_bind_Inr)

lemma snd_log_rethrow:
  "snd (log_rethrow label m) =
     snd m @ (case fst m of Inl e \<Rightarrow> [ConsoleError label] | Inr x \<Rightarrow> [])"
  by (cases m, cases "fst m") (auto simp: log_rethrow_def)

lemma polls_quiet: "\<forall>e\<in>set (polls n). \<not> is_chat e"
  by (induction n) (simp_all add: polls_0 polls_Suc)

lemma pollLoop_quiet: "\<forall>e\<in>set (snd (pollLoop w mk 0)). \<not> is_chat e"
proof -
  from pollLoop_from [of 0 w mk] obtain n where
    "if n = maxAttempts
      then pollLoop w mk 0 = (Inl (Error ''Apify actor run timeout''), polls (n - 0))
      else \<not> pending w n \<and> pollLoop w mk 0 =
        (case fst (readStatus w n) of
           Inl e \<Rightarrow> (Inl e, polls (Suc n - 0))
         | Inr st \<Rightarrow>
             if st = JStr ''SUCCEEDED''
             then (fst (fetchResults w mk), polls (Suc n - 0) @ [Fetch ApifyDataset])
             else (Inl (Error ''Apify actor run failed''), polls (Suc n - 0)))"
    by blast
  then show ?thesis
    using polls_quiet by (auto split: if_splits sum.splits)
qed

lemma pollLoop_success:
  assumes "fst (pollLoop w mk 0) = Inr ls"
  shows "fst (fetchResults w mk) = Inr ls"
proof -
  from pollLoop_from [of 0 w mk] obtain n where
    "if n = maxAttempts
      then pollLoop w mk 0 = (Inl (Error ''Apify actor run timeout''), polls (n - 0))
      else \<not> pending w n \<and> pollLoop w mk 0 =
        (case fst (readStatus w n) of
           Inl e \<Rightarrow> (Inl e, polls (Suc n - 0))
         | Inr st \<Rightarrow>
             if st = JStr ''SUCCEEDED''
             then (fst (fetchResults w mk), polls (Suc n - 0) @ [Fetch ApifyDataset])
             else (Inl (Error ''Apify actor run failed''), polls (Suc n - 0)))"
    by blast
  with assms show ?thesis
    by (auto split: if_splits sum.splits)
qed

lemma map_records_all:
  assumes "\<And>u t x l. mk u t x = Inr l \<Longrightarrow> P l"
  shows "map_records mk w k ps = Inr ls \<Longrightarrow> \<forall>l\<in>set ls. P l"
proof (induction ps arbitrary: k ls)
  case Nil
  then show ?case by simp
next
  case (Cons p ps)
  then show ?case
    using assms by (auto simp: ebind_def split: sum.splits)
qed

lemma fetchResults_all:
  assumes "\<And>u t x l. mk u t x = Inr l \<Longrightarrow> P l"
    and "fst (fetchResults w mk) = Inr ls"
  shows "\<forall>l\<in>set ls. P l"
proof -
  from assms(2) obtain results where "fst (lift (map_results mk w results)) = Inr ls"
    unfolding fetchResults_def by (blast dest: fst_io_bind_Inr)
  then have r: "map_results mk w results = Inr ls" by (simp add: lift_def)
  then obtain ps where "results = JArr ps" by (cases results) simp_all
  with r have "map_records mk w 0 ps = Inr ls" by simp
  with assms(1) show ?thesis by (rule map_records_all)
qed


lemma apolloLead_no_icp:
  "apolloLead u t x = Inr l \<Longrightarrow>
   map_of l ''icp_score'' = None \<and> map_of l ''icp_grade'' = None \<and> map_of l ''icpReasoning'' = None"
  by (auto simp: apolloLead_Inr)

lemma googleLead_no_icp:
  "googleLead u t x = Inr l \<Longrightarrow>
   map_of l ''icp_score'' = None \<and> map_of l ''icp_grade'' = None \<and> map_of l ''icpReasoning'' = None"
  by (auto simp: googleLead_Inr)

lemma searchApolloLeads_success:
  assumes "fst (searchApolloLeads cfg w) = Inr ls"
  shows "fst (fetchResults w apolloLead) = Inr ls"
proof -
  from assms have "APIFY_API_TOKENS cfg \<noteq> []" by (rule searchApolloLeads_configured)
  from searchApolloLeads_run [OF this, of w] assms
  have "fst (pollLoop w apolloLead 0) = Inr ls"
    by (auto simp: fst_log_rethrow split: sum.splits)
  then show ?thesis by (rule pollLoop_success)
qed

lemma searchGoogleLeads_success:
  assumes "fst (searchGoogleLeads cfg w) = Inr ls"
  shows "ls = [] \<or> fst (fetchResults w googleLead) = Inr ls"
proof -
  from assms have c: "env_set (GOOGLE_API_KEY cfg)" "env_set (GOOGLE_CSE_ID cfg)"
    "APIFY_API_TOKENS cfg \<noteq> []"
    using searchGoogleLeads_configured by blast+
  let ?inner = "\<lambda>items. io_bind (lift (js_length items)) (\<lambda>n.
            if n = JNum 0 then ret []
            else
              io_bind (lift (linkedinUrls items)) (\<lambda>urls.
              if length urls = 0 then ret []
              else io_bind (startRun w) (\<lambda>runId. pollLoop w googleLead 0)))"
  from c have "searchGoogleLeads cfg w =
     log_rethrow ''Google search error:''
          (io_bind (fetch_ok_json GoogleSearch ''Google Search API error: '' (googleSearch w))
            (\<lambda>searchData.
          io_bind (lift (get_prop searchData ''items'')) (\<lambda>items.
          if \<not> truthy items then ret [] else ?inner items)))"
    unfolding searchGoogleLeads_def by simp
  with assms have "fst (io_bind (fetch_ok_json GoogleSearch ''Google Search API error: '' (googleSearch w))
            (\<lambda>searchData.
          io_bind (lift (get_prop searchData ''items'')) (\<lambda>items.
          if \<not> truthy items then ret [] else ?inner items))) = Inr ls"
    by (simp add: fst_log_rethrow)
  from fst_io_bind_Inr [OF this]
  obtain sd where "fst (io_bind (lift (get_prop sd ''items'')) (\<lambda>items.
          if \<not> truthy items then ret [] else ?inner items)) = Inr ls"
    by blast
  from fst_io_bind_Inr [OF this]
  obtain items where i: "fst (if \<not> truthy items then ret [] else ?inner items) = Inr ls"
    by blast
  show ?thesis
  proof (cases "truthy items")
    case False
    with i show ?thesis by (simp add: ret_def)
  next
    case True
    with i have "fst (?inner items) = Inr ls" by simp
    from fst_io_bind_Inr [OF this] obtain n where n: "fst (if n = JNum 0 then ret []
            else
              io_bind (lift (linkedinUrls items)) (\<lambda>urls.
              if length urls = 0 then ret []
              else io_bind (startRun w) (\<lambda>runId. pollLoop w googleLead 0))) = Inr ls"
      by blast
    show ?thesis
    proof (cases "n = JNum 0")
      case True
      with n show ?thesis by (simp add: ret_def)
    next
      case False
      with n have "fst (io_bind (lift (linkedinUrls items)) (\<lambda>urls.
              if length urls = 0 then ret []
              else io_bind (startRun w) (\<lambda>runId. pollLoop w googleLead 0))) = Inr ls"
        by simp
      from fst_io_bind_Inr [OF this] obtain urls :: "jsval list" where u: "fst (if length urls = 0 then ret []
              else io_bind (startRun w) (\<lambda>runId. pollLoop w googleLead 0)) = Inr ls"
        by auto
      show ?thesis
      proof (cases "length urls = 0")
        case True
        with u show ?thesis by (simp add: ret_def)
      next
        case False
        with u have "fst (io_bind (startRun w) (\<lambda>runId. pollLoop w googleLead 0)) = Inr ls"
          by simp
        from fst_io_bind_Inr [OF this] have "fst (pollLoop w googleLead 0) = Inr ls"
          by blast
        then show ?thesis by (simp add: pollLoop_success)
      qed
    qed
  qed
qed

lemma sourced_no_icp:
  assumes "fst (searchApolloLeads cfg w) = Inr sourced \<or> fst (searchGoogleLeads cfg w) = Inr sourced"
  shows "\<forall>l\<in>set sourced. map_of l ''icp_score'' = None \<and> map_of l ''icp_grade'' = None
            \<and> map_of l ''icpReasoning'' = None"
  using assms
proof
  assume "fst (searchApolloLeads cfg w) = Inr sourced"
  then have "fst (fetchResults w apolloLead) = Inr sourced" by (rule searchApolloLeads_success)
  with apolloLead_no_icp show ?thesis by (rule fetchResults_all)
next
  assume "fst (searchGoogleLeads cfg w) = Inr sourced"
  then have "sourced = [] \<or> fst (fetchResults w googleLead) = Inr sourced"
    by (rule searchGoogleLeads_success)
  then show ?thesis
  proof
    assume "sourced = []"
    then show ?thesis by simp
  next
    assume "fst (fetchResults w googleLead) = Inr sourced"
    with googleLead_no_icp show ?thesis by (rule fetchResults_all)
  qed
qed


lemma quiet_io_bind:
  assumes "\<forall>e\<in>set (snd m). \<not> is_chat e" "\<And>x. \<forall>e\<in>set (snd (f x)). \<not> is_chat e"
  shows "\<forall>e\<in>set (snd (io_bind m f)). \<not> is_chat e"
  using assms by (auto simp: snd_io_bind split: sum.splits)

lemma quiet_log_rethrow:
  assumes "\<forall>e\<in>set (snd m). \<not> is_chat e"
  shows "\<forall>e\<in>set (snd (log_rethrow label m)). \<not> is_chat e"
  using assms by (auto simp: snd_log_rethrow split: sum.splits)

lemma quiet_basic:
  "\<forall>e\<in>set (snd (ret x)). \<not> is_chat e"
  "\<forall>e\<in>set (snd (throw ex)). \<not> is_chat e"
  "\<forall>e\<in>set (snd (lift r)). \<not> is_chat e"
  "\<forall>e\<in>set (snd (fetch_ok_json ep what rp)). \<not> is_chat e"
  "\<forall>e\<in>set (snd (startRun w)). \<not> is_chat e"
  by (simp_all add: ret_def throw_def lift_def fetch_ok_json_snd startRun_snd)

lemma quiet_if:
  assumes "\<forall>e\<in>set (snd a). \<not> is_chat e" "\<forall>e\<in>set (snd b). \<not> is_chat e"
  shows "\<forall>e\<in>set (snd (if c then a else b)). \<not> is_chat e"
  using assms by simp

lemma searchApolloLeads_quiet: "\<forall>e\<in>set (snd (searchApolloLeads cfg w)). \<not> is_chat e"
  unfolding searchApolloLeads_def
  by (intro quiet_log_rethrow quiet_if quiet_io_bind quiet_basic pollLoop_quiet)

lemma searchGoogleLeads_quiet: "\<forall>e\<in>set (snd (searchGoogleLeads cfg w)). \<not> is_chat e"
  unfolding searchGoogleLeads_def
  by (intro quiet_log_rethrow quiet_if quiet_io_bind quiet_basic pollLoop_quiet)

lemma saveLeads_quiet: "\<forall>e\<in>set (saveLeads w leads). \<not> is_chat e"
  by (auto simp: saveLeads_def split: sum.splits)

lemma saveLeads_insert: "leads \<noteq> [] \<Longrightarrow> Insert leads \<in> set (saveLeads w leads)"
  by (simp add: saveLeads_def)

lemma serve_loaded: "moduleInit cfg = Inr () \<Longrightarrow> serve cfg w rq = Inr (POST cfg w rq)"
  by (simp add: serve_def ebind_def)

lemma moduleInit_unset: "OPENAI_API_KEY cfg = None \<Longrightarrow> \<exists>e. moduleInit cfg = Inl e"
  by (simp add: moduleInit_def createClient_def newOpenAI_def ebind_def)

lemma moduleInit_empty:
  "OPENAI_API_KEY cfg = Some '''' \<Longrightarrow> env_set (NEXT_PUBLIC_SUPABASE_URL cfg) \<Longrightarrow>
   env_set (SUPABASE_SERVICE_ROLE_KEY cfg) \<Longrightarrow> moduleInit cfg = Inr ()"
  by (simp add: moduleInit_def createClient_def newOpenAI_def ebind_def)

text \<open>
  C10, as the spec states it: with \<^verbatim>\<open>OPENAI_API_KEY\<close> unset the run skips scoring and
  still reports success. This fails: the module builds the model's client when it is
  loaded, from \<^verbatim>\<open>process.env.OPENAI_API_KEY\<close>, and with the variable unset the
  constructor throws; the handler is never called and the request gets no answer of
  its.
\<close>

theorem unset_model_key_stops_module_load:
  "OPENAI_API_KEY (cfg_ex\<lparr>OPENAI_API_KEY := None\<rparr>) = None
   \<and> serve (cfg_ex\<lparr>OPENAI_API_KEY := None\<rparr>) w_ex (Inr rq_apollo) =
       Inl (Error ''The OPENAI_API_KEY environment variable is missing or empty'')"
  by (simp add: serve_def moduleInit_def createClient_def newOpenAI_def cfg_ex_def env_set_def
      ebind_def)

lemma module_load_fails_when_key_unset:
  "OPENAI_API_KEY cfg = None \<Longrightarrow> \<exists>e. serve cfg w rq = Inl e"
proof -
  assume "OPENAI_API_KEY cfg = None"
  then obtain e where "moduleInit cfg = Inl e"
    using moduleInit_unset by blast
  then show "\<exists>e. serve cfg w rq = Inl e"
    by (simp add: serve_def ebind_def)
qed

text \<open>
  C10, amended: with \<^verbatim>\<open>OPENAI_API_KEY\<close> set to the empty string (and the storage
  variables set, so that the module loads), when sourcing has returned leads the
  request is answered with status 200 and \<^verbatim>\<open>status: 'success'\<close>; the leads of the
  answer are the sourced leads as they are, with their count; the effects of the
  request are those of sourcing followed by those of saving the sourced leads, and no
  call of the scoring model is among them; a non-empty batch is handed to the storage
  insert unchanged; and no sourced lead has an \<^verbatim>\<open>icp_score\<close>, \<^verbatim>\<open>icp_grade\<close> or
  \<^verbatim>\<open>icpReasoning\<close> property.
\<close>

theorem unscored_when_model_key_empty:
  assumes "OPENAI_API_KEY cfg = Some ''''"
    and "env_set (NEXT_PUBLIC_SUPABASE_URL cfg)" "env_set (SUPABASE_SERVICE_ROLE_KEY cfg)"
    and "jobTitles b \<noteq> None" "locations b \<noteq> None"
    and "(method b = Some ''apollo'' \<and> searchApolloLeads cfg w = (Inr sourced, t))
       \<or> (method b = Some ''google_apify'' \<and> searchGoogleLeads cfg w = (Inr sourced, t))"
  shows "\<exists>m. method b = Some m
     \<and> serve cfg w (Inr b) =
         Inr (Response 200
                [(''status'', JStr ''success''),
                 (''data'', JObj [(''leads'', JArr (map JObj sourced)),
                                 (''count'', JNum (int (length sourced))),
                                 (''method'', JStr m),
                                 (''timestamp'', JStr (respondedAt w))])],
              t @ saveLeads w sourced)
     \<and> (\<forall>e\<in>set (t @ saveLeads w sourced). \<not> is_chat e)
     \<and> (sourced \<noteq> [] \<longrightarrow> (\<exists>log. saveLeads w sourced = Insert sourced # log))
     \<and> (\<forall>l\<in>set sourced. map_of l ''icp_score'' = None \<and> map_of l ''icp_grade'' = None
            \<and> map_of l ''icpReasoning'' = None)"
proof -
  from assms(1) have key: "\<not> env_set (OPENAI_API_KEY cfg)"
    by (simp add: env_set_def)
  note h = assms(4,5) and src0 = assms(6)
  from assms(1-3) have "moduleInit cfg = Inr ()"
    by (rule moduleInit_empty)
  then have sv: "serve cfg w (Inr b) = Inr (POST cfg w (Inr b))"
    by (rule serve_loaded)
  define m where "m = (if method b = Some ''apollo'' then ''apollo'' else ''google_apify'')"
  from src0 have src: "(method b = Some ''apollo'' \<and> fst (searchApolloLeads cfg w) = Inr sourced
            \<and> m = ''apollo'' \<and> t = snd (searchApolloLeads cfg w))
       \<or> (method b = Some ''google_apify'' \<and> fst (searchGoogleLeads cfg w) = Inr sourced
            \<and> m = ''google_apify'' \<and> t = snd (searchGoogleLeads cfg w))"
    by (auto simp: m_def)
  from POST_sourced [OF h this]
  have "Inr (fst (POST cfg w (Inr b))) = fst (finish cfg w m sourced)"
    and "snd (POST cfg w (Inr b)) = t @ snd (finish cfg w m sourced)"
    by simp_all
  with key have r: "fst (POST cfg w (Inr b)) =
         Response 200
           [(''status'', JStr ''success''),
            (''data'', JObj [(''leads'', JArr (map JObj sourced)),
                            (''count'', JNum (int (length sourced))),
                            (''method'', JStr m),
                            (''timestamp'', JStr (respondedAt w))])]"
    and tr: "snd (POST cfg w (Inr b)) = t @ saveLeads w sourced"
    by (simp_all add: finish_fst finish_snd)
  then have p: "POST cfg w (Inr b) =
       (Response 200
           [(''status'', JStr ''success''),
            (''data'', JObj [(''leads'', JArr (map JObj sourced)),
                            (''count'', JNum (int (length sourced))),
                            (''method'', JStr m),
                            (''timestamp'', JStr (respondedAt w))])],
        t @ saveLeads w sourced)"
    by (cases "POST cfg w (Inr b)") simp
  from src have "\<forall>e\<in>set t. \<not> is_chat e"
    using searchApolloLeads_quiet [of cfg w] searchGoogleLeads_quiet [of cfg w] by auto
  then have q: "\<forall>e\<in>set (t @ saveLeads w sourced). \<not> is_chat e"
    using saveLeads_quiet by auto
  have i: "sourced \<noteq> [] \<longrightarrow> (\<exists>log. saveLeads w sourced = Insert sourced # log)"
    by (simp add: saveLeads_def)
  from src have "fst (searchApolloLeads cfg w) = Inr sourced
      \<or> fst (searchGoogleLeads cfg w) = Inr sourced"
    by blast
  then have k: "\<forall>l\<in>set sourced. map_of l ''icp_score'' = None \<and> map_of l ''icp_grade'' = None
            \<and> map_of l ''icpReasoning'' = None"
    by (rule sourced_no_icp)
  from src have "method b = Some m"
    by (auto simp: m_def)
  with sv p q i k show ?thesis
    by (simp only:) blast
qed

theorem unscored_when_model_key_empty_witness:
  "OPENAI_API_KEY (cfg_ex\<lparr>OPENAI_API_KEY := Some ''''\<rparr>) = Some ''''
   \<and> env_set (NEXT_PUBLIC_SUPABASE_URL (cfg_ex\<lparr>OPENAI_API_KEY := Some ''''\<rparr>))
   \<and> env_set (SUPABASE_SERVICE_ROLE_KEY (cfg_ex\<lparr>OPENAI_API_KEY := Some ''''\<rparr>))
   \<and> searchApolloLeads (cfg_ex\<lparr>OPENAI_API_KEY := Some ''''\<rparr>) w_ex = (Inr leads_ex, sourcing_ex)
   \<and> length leads_ex = 3
   \<and> serve (cfg_ex\<lparr>OPENAI_API_KEY := Some ''''\<rparr>) w_ex (Inr rq_apollo) =
       Inr (Response 200
              [(''status'', JStr ''success''),
               (''data'', JObj [(''leads'', JArr (map JObj leads_ex)),
                               (''count'', JNum 3),
                               (''method'', JStr ''apollo''),
                               (''timestamp'', JStr ''2025-01-01T00:01:00.000Z'')])],
            sourcing_ex @ [Insert leads_ex])
   \<and> map_of (leads_ex ! 0) ''icp_score'' = None
   \<and> map_of (leads_ex ! 0) ''icp_grade'' = None
   \<and> map_of (leads_ex ! 0) ''icpReasoning'' = None"
proof -
  let ?cfg = "cfg_ex\<lparr>OPENAI_API_KEY := Some ''''\<rparr>"
  have k: "OPENAI_API_KEY ?cfg = Some ''''" by simp
  have e: "env_set (NEXT_PUBLIC_SUPABASE_URL ?cfg)" "env_set (SUPABASE_SERVICE_ROLE_KEY ?cfg)"
    by (simp_all add: cfg_ex_def env_set_def)
  have h: "jobTitles rq_apollo \<noteq> None" "locations rq_apollo \<noteq> None"
    and m: "method rq_apollo = Some ''apollo''"
    by (simp_all add: rq_apollo_def)
  have s: "searchApolloLeads ?cfg w_ex = (Inr leads_ex, sourcing_ex)"
    by (simp add: searchApolloLeads_key searchApolloLeads_w_ex)
  have len: "length leads_ex = 3" by (simp add: leads_ex_def)
  have sv: "saveLeads w_ex leads_ex = [Insert leads_ex]"
    by (simp add: saveLeads_def leads_ex_def w_ex_def ebind_def get_prop_def nullish_def obj_get_def)
  have ts: "respondedAt w_ex = ''2025-01-01T00:01:00.000Z''" by (simp add: w_ex_def)
  from m s have src: "(method rq_apollo = Some ''apollo''
          \<and> searchApolloLeads ?cfg w_ex = (Inr leads_ex, sourcing_ex))
       \<or> (method rq_apollo = Some ''google_apify''
          \<and> searchGoogleLeads ?cfg w_ex = (Inr leads_ex, sourcing_ex))"
    by blast
  from unscored_when_model_key_empty [OF k e h src]
  obtain m' where m': "method rq_apollo = Some m'"
    and 2: "serve ?cfg w_ex (Inr rq_apollo) =
       Inr (Response 200
              [(''status'', JStr ''success''),
               (''data'', JObj [(''leads'', JArr (map JObj leads_ex)),
                               (''count'', JNum (int (length leads_ex))),
                               (''method'', JStr m'),
                               (''timestamp'', JStr (respondedAt w_ex))])],
            sourcing_ex @ saveLeads w_ex leads_ex)"
    and 3: "\<forall>l\<in>set leads_ex. map_of l ''icp_score'' = None \<and> map_of l ''icp_grade'' = None
                   \<and> map_of l ''icpReasoning'' = None"
    by blast
  from m m' have "m' = ''apollo''" by simp
  with 2 have 4: "serve ?cfg w_ex (Inr rq_apollo) =
       Inr (Response 200
              [(''status'', JStr ''success''),
               (''data'', JObj [(''leads'', JArr (map JObj leads_ex)),
                               (''count'', JNum 3),
                               (''method'', JStr ''apollo''),
                               (''timestamp'', JStr ''2025-01-01T00:01:00.000Z'')])],
            sourcing_ex @ [Insert leads_ex])"
    by (simp add: len sv ts)
  have "leads_ex ! 0 \<in> set leads_ex" by (simp add: leads_ex_def)
  with 3 have 5: "map_of (leads_ex ! 0) ''icp_score'' = None"
    "map_of (leads_ex ! 0) ''icp_grade'' = None"
    "map_of (leads_ex ! 0) ''icpReasoning'' = None"
    by blast+
  from k e s len 4 5 show ?thesis by blast
qed

lemma searchApolloLeads_fetches:
  assumes "fst (searchApolloLeads cfg w) = Inr sourced"
  shows "Fetch ApifyRun \<in> set (snd (searchApolloLeads cfg w))"
proof -
  from assms have "APIFY_API_TOKENS cfg \<noteq> []" by (rule searchApolloLeads_configured)
  from searchApolloLeads_run [OF this, of w] show ?thesis
    by (simp add: snd_log_rethrow split: sum.splits)
qed

lemma searchGoogleLeads_fetches:
  assumes "fst (searchGoogleLeads cfg w) = Inr sourced"
  shows "Fetch GoogleSearch \<in> set (snd (searchGoogleLeads cfg w))"
proof -
  from assms have "env_set (GOOGLE_API_KEY cfg)" "env_set (GOOGLE_CSE_ID cfg)"
    "APIFY_API_TOKENS cfg \<noteq> []"
    using searchGoogleLeads_configured by blast+
  then show ?thesis
    unfolding searchGoogleLeads_def
    by (simp add: snd_log_rethrow snd_io_bind fetch_ok_json_snd)
qed

text \<open>The handler's answers: an error body, or the answer built after sourcing.\<close>

lemma POST_cases:
  "(\<exists>c msg. fst (POST cfg w rq) = Response c (error_body msg))
   \<or> (\<exists>msg. fst (POST cfg w rq) =
         Response 500 [(''status'', JStr ''error''), (''message'', JStr msg),
                       (''timestamp'', JStr (respondedAt w))])
   \<or> (\<exists>b sourced. rq = Inr b \<and> jobTitles b \<noteq> None \<and> locations b \<noteq> None
         \<and> ((method b = Some ''apollo'' \<and> fst (searchApolloLeads cfg w) = Inr sourced)
            \<or> (method b = Some ''google_apify'' \<and> fst (searchGoogleLeads cfg w) = Inr sourced)))"
proof (cases rq)
  case (Inl e)
  then have "POST_try cfg w rq = (Inl e, [])"
    by (simp add: POST_try_def lift_def io_bind_Inl)
  then show ?thesis
    by (simp add: POST_def)
next
  case (Inr b)
  have thrown: ?thesis if "POST_try cfg w rq = (Inl e, t)" for e t
    using that by (simp add: POST_def)
  have answered: ?thesis if "POST_try cfg w rq = ret (Response c (error_body msg))" for c msg
    using that by (auto simp: POST_def ret_def)
  consider (invalid) "\<not> given_str (method b) \<or> jobTitles b = None \<or> locations b = None"
    | (apollo) "jobTitles b \<noteq> None" "locations b \<noteq> None" "method b = Some ''apollo''"
    | (google) "jobTitles b \<noteq> None" "locations b \<noteq> None" "method b = Some ''google_apify''"
    | (other) "given_str (method b)" "jobTitles b \<noteq> None" "locations b \<noteq> None"
        "method b \<noteq> Some ''apollo''" "method b \<noteq> Some ''google_apify''"
    by blast
  then show ?thesis
  proof cases
    case invalid
    then have "POST_try cfg w rq = ret (Response 400 (error_body ''Missing required parameters''))"
      unfolding POST_try_def Inr by (simp only: lift_def io_bind_Inr if_True fst_conv snd_conv ret_def append_Nil)
    then show ?thesis by (rule answered)
  next
    case other
    then have "POST_try cfg w rq = ret (Response 400 (error_body ''Invalid method specified''))"
      unfolding POST_try_def Inr by (auto simp: lift_def io_bind_Inr ret_def)
    then show ?thesis by (rule answered)
  next
    case apollo
    show ?thesis
    proof (cases "APIFY_API_TOKENS cfg = []")
      case True
      with apollo have "POST_try cfg w rq = ret (Response 500 (error_body ''Apify API tokens not configured''))"
        unfolding POST_try_def Inr by (auto simp: lift_def io_bind_Inr ret_def given_str_def)
      then show ?thesis by (rule answered)
    next
      case False
      with apollo have p: "POST_try cfg w rq = io_bind (searchApolloLeads cfg w) (finish cfg w ''apollo'')"
        unfolding Inr by (intro POST_try_apollo)
      show ?thesis
      proof (cases "fst (searchApolloLeads cfg w)")
        case (Inl e)
        with p have "POST_try cfg w rq = (Inl e, snd (searchApolloLeads cfg w))"
          by (simp add: io_bind_fst_Inl)
        then show ?thesis by (rule thrown)
      next
        case (Inr sourced)
        with apollo \<open>rq = Inr b\<close> show ?thesis by blast
      qed
    qed
  next
    case google
    show ?thesis
    proof (cases "env_set (GOOGLE_API_KEY cfg) \<and> env_set (GOOGLE_CSE_ID cfg) \<and> APIFY_API_TOKENS cfg \<noteq> []")
      case False
      with google have "POST_try cfg w rq =
          ret (Response 500 (error_body ''Google or Apify API credentials not configured''))"
        unfolding POST_try_def Inr by (auto simp: lift_def io_bind_Inr ret_def given_str_def)
      then show ?thesis by (rule answered)
    next
      case True
      with google have p: "POST_try cfg w rq =
          io_bind (searchGoogleLeads cfg w) (finish cfg w ''google_apify'')"
        unfolding Inr by (intro POST_try_google) simp_all
      show ?thesis
      proof (cases "fst (searchGoogleLeads cfg w)")
        case (Inl e)
        with p have "POST_try cfg w rq = (Inl e, snd (searchGoogleLeads cfg w))"
          by (simp add: io_bind_fst_Inl)
        then show ?thesis by (rule thrown)
      next
        case (Inr sourced)
        with google \<open>rq = Inr b\<close> show ?thesis by blast
      qed
    qed
  qed
qed


lemma scoreProfile_snd_hd: "\<exists>rest. snd (scoreProfile w i) = ChatCompletion i # rest"
  by (simp add: scoreProfile_def eff_def io_bind_Inr ret_def split: sum.splits)

lemma scoreLeads_snd_Cons:
  "snd (scoreLeads w k (lead # leads)) = snd (scoreProfile w k) @ snd (scoreLeads w (Suc k) leads)"
proof -
  obtain r t where rt: "scoreProfile w k = (r, t)" by (cases "scoreProfile w k")
  with scoreProfile_fst [of w k] obtain x where "r = Inr x" by simp
  with rt show ?thesis
    by (simp split: prod.splits)
qed

text \<open>The model is called for every lead of the batch.\<close>

lemma scoreLeads_chat:
  "i < length leads \<Longrightarrow> ChatCompletion (k + i) \<in> set (snd (scoreLeads w k leads))"
proof (induction leads arbitrary: k i)
  case Nil
  then show ?case by simp
next
  case (Cons lead leads)
  show ?case
  proof (cases i)
    case 0
    with scoreProfile_snd_hd [of w k] show ?thesis
      by (auto simp add: scoreLeads_snd_Cons simp del: scoreLeads.simps(2))
  next
    case (Suc j)
    with Cons.prems have "j < length leads" by simp
    from Cons.IH [OF this, of "Suc k"] Suc show ?thesis
      by (simp add: scoreLeads_snd_Cons del: scoreLeads.simps(2))
  qed
qed

text \<open>
  C6, amended: no answer of the handler carries a session id, and the handler does
  all its work before it answers. An answer with \<^verbatim>\<open>status: 'success'\<close> is the answer
  to a request that names one of the two methods; sourcing by that method has returned
  leads, after at least one request to the search engine or the scrape provider; the
  answer carries these leads, as scored when the model's key is configured and as
  sourced otherwise, with their count, the method and a timestamp; and the effects of
  the request, all of them before the answer, are those of sourcing, then those of
  scoring, in which the model is called for every lead, then those of saving, which begin
  with the insert of the leads when there are any.
\<close>

theorem answer_has_no_session_id:
  "obj_get (body (fst (POST cfg w rq))) ''sessionId'' = JUndefined
   \<and> obj_get (body (fst (POST cfg w rq))) ''session_id'' = JUndefined
   \<and> (outcome (POST cfg w rq) = JStr ''success'' \<longrightarrow>
        (\<exists>b m sourced t leads scoring.
            rq = Inr b \<and> method b = Some m
          \<and> ((m = ''apollo'' \<and> searchApolloLeads cfg w = (Inr sourced, t))
             \<or> (m = ''google_apify'' \<and> searchGoogleLeads cfg w = (Inr sourced, t)))
          \<and> (\<exists>e\<in>set t. is_fetch e)
          \<and> (leads, scoring) =
              (if env_set (OPENAI_API_KEY cfg) then scoreLeads w 0 sourced else (sourced, []))
          \<and> length leads = length sourced
          \<and> (env_set (OPENAI_API_KEY cfg) \<longrightarrow>
               (\<forall>i<length sourced. ChatCompletion i \<in> set scoring))
          \<and> (leads \<noteq> [] \<longrightarrow> (\<exists>log. saveLeads w leads = Insert leads # log))
          \<and> POST cfg w rq =
              (Response 200
                 [(''status'', JStr ''success''),
                  (''data'', JObj [(''leads'', JArr (map JObj leads)),
                                  (''count'', JNum (int (length leads))),
                                  (''method'', JStr m),
                                  (''timestamp'', JStr (respondedAt w))])],
               t @ scoring @ saveLeads w leads)))"
proof -
  from POST_cases [of cfg w rq] consider
    (answered) c msg where "fst (POST cfg w rq) = Response c (error_body msg)"
  | (thrown) msg where "fst (POST cfg w rq) =
         Response 500 [(''status'', JStr ''error''), (''message'', JStr msg),
                       (''timestamp'', JStr (respondedAt w))]"
  | (sourced) b sourced where "rq = Inr b" "jobTitles b \<noteq> None" "locations b \<noteq> None"
      "(method b = Some ''apollo'' \<and> fst (searchApolloLeads cfg w) = Inr sourced)
        \<or> (method b = Some ''google_apify'' \<and> fst (searchGoogleLeads cfg w) = Inr sourced)"
    by blast
  then show ?thesis
  proof cases
    case answered
    then show ?thesis
      by (simp add: error_body_def obj_get_def outcome_def)
  next
    case thrown
    then show ?thesis
      by (simp add: obj_get_def outcome_def)
  next
    case sourced
    note rq = sourced(1) and h = sourced(2,3) and src = sourced(4)
    define m where "m = (if method b = Some ''apollo'' then ''apollo'' else ''google_apify'')"
    define t where "t = (if m = ''apollo'' then snd (searchApolloLeads cfg w)
                         else snd (searchGoogleLeads cfg w))"
    define leads where "leads = (if env_set (OPENAI_API_KEY cfg)
                                 then fst (scoreLeads w 0 sourced) else sourced)"
    define scoring where "scoring = (if env_set (OPENAI_API_KEY cfg)
                                     then snd (scoreLeads w 0 sourced) else [])"
    from src have src1: "(method b = Some ''apollo'' \<and> fst (searchApolloLeads cfg w) = Inr sourced
              \<and> m = ''apollo'' \<and> t = snd (searchApolloLeads cfg w))
         \<or> (method b = Some ''google_apify'' \<and> fst (searchGoogleLeads cfg w) = Inr sourced
              \<and> m = ''google_apify'' \<and> t = snd (searchGoogleLeads cfg w))"
      by (auto simp: m_def t_def)
    from POST_sourced [OF h this]
    have "Inr (fst (POST cfg w (Inr b))) = fst (finish cfg w m sourced)"
      and "snd (POST cfg w (Inr b)) = t @ snd (finish cfg w m sourced)"
      by simp_all
    then have r: "fst (POST cfg w (Inr b)) = Response 200
         [(''status'', JStr ''success''),
          (''data'', JObj
             [(''leads'', JArr (map JObj leads)),
              (''count'', JNum (int (length leads))),
              (''method'', JStr m),
              (''timestamp'', JStr (respondedAt w))])]"
      and tr: "snd (POST cfg w (Inr b)) = t @ scoring @ saveLeads w leads"
      by (simp_all add: finish_fst finish_snd leads_def scoring_def)
    then have p: "POST cfg w rq =
         (Response 200
            [(''status'', JStr ''success''),
             (''data'', JObj [(''leads'', JArr (map JObj leads)),
                             (''count'', JNum (int (length leads))),
                             (''method'', JStr m),
                             (''timestamp'', JStr (respondedAt w))])],
          t @ scoring @ saveLeads w leads)"
      unfolding rq by (cases "POST cfg w (Inr b)") simp
    have 1: "obj_get (body (fst (POST cfg w rq))) ''sessionId'' = JUndefined"
      "obj_get (body (fst (POST cfg w rq))) ''session_id'' = JUndefined"
      unfolding rq r by (simp_all add: obj_get_def)
    from src1 have mm: "method b = Some m"
      and s: "(m = ''apollo'' \<and> searchApolloLeads cfg w = (Inr sourced, t))
             \<or> (m = ''google_apify'' \<and> searchGoogleLeads cfg w = (Inr sourced, t))"
      by (auto simp: prod_eq_iff)
    from src have "Fetch ApifyRun \<in> set t \<or> Fetch GoogleSearch \<in> set t"
      using searchApolloLeads_fetches searchGoogleLeads_fetches by (auto simp: m_def t_def)
    then have f: "\<exists>e\<in>set t. is_fetch e"
      by (metis is_fetch.simps(1))
    have ls: "(leads, scoring) =
        (if env_set (OPENAI_API_KEY cfg) then scoreLeads w 0 sourced else (sourced, []))"
      by (simp add: leads_def scoring_def)
    have len: "length leads = length sourced"
      by (simp add: leads_def length_scoreLeads)
    have ch: "env_set (OPENAI_API_KEY cfg) \<longrightarrow> (\<forall>i<length sourced. ChatCompletion i \<in> set scoring)"
      using scoreLeads_chat [of _ sourced 0 w] by (simp add: scoring_def)
    have ins: "leads \<noteq> [] \<longrightarrow> (\<exists>log. saveLeads w leads = Insert leads # log)"
      by (simp add: saveLeads_def)
    from rq mm s f ls len ch ins p
    have "\<exists>b m sourced t leads scoring.
            rq = Inr b \<and> method b = Some m
          \<and> ((m = ''apollo'' \<and> searchApolloLeads cfg w = (Inr sourced, t))
             \<or> (m = ''google_apify'' \<and> searchGoogleLeads cfg w = (Inr sourced, t)))
          \<and> (\<exists>e\<in>set t. is_fetch e)
          \<and> (leads, scoring) =
              (if env_set (OPENAI_API_KEY cfg) then scoreLeads w 0 sourced else (sourced, []))
          \<and> length leads = length sourced
          \<and> (env_set (OPENAI_API_KEY cfg) \<longrightarrow>
               (\<forall>i<length sourced. ChatCompletion i \<in> set scoring))
          \<and> (leads \<noteq> [] \<longrightarrow> (\<exists>log. saveLeads w leads = Insert leads # log))
          \<and> POST cfg w rq =
              (Response 200
                 [(''status'', JStr ''success''),
                  (''data'', JObj [(''leads'', JArr (map JObj leads)),
                                  (''count'', JNum (int (length leads))),
                                  (''method'', JStr m),
                                  (''timestamp'', JStr (respondedAt w))])],
               t @ scoring @ saveLeads w leads)"
      by blast
    with 1 show ?thesis by blast
  qed
qed

lemma POST_w_ex_run:
  "POST cfg_ex w_ex (Inr rq_apollo) =
     (Response 200
        [(''status'', JStr ''success''),
         (''data'', JObj [(''leads'', JArr (map JObj scored_ex)), (''count'', JNum 3),
                         (''method'', JStr ''apollo''),
                         (''timestamp'', JStr ''2025-01-01T00:01:00.000Z'')])],
      sourcing_ex @ scoring_ex @ [Insert scored_ex])"
proof -
  have "w_ex\<lparr>supabaseInsert := supabaseInsert w_ex\<rparr> = w_ex" by simp
  with POST_w_ex [of "supabaseInsert w_ex"]
  have "POST cfg_ex w_ex (Inr rq_apollo) =
     (Response 200
        [(''status'', JStr ''success''),
         (''data'', JObj [(''leads'', JArr (map JObj scored_ex)), (''count'', JNum 3),
                         (''method'', JStr ''apollo''),
                         (''timestamp'', JStr ''2025-01-01T00:01:00.000Z'')])],
      sourcing_ex @ scoring_ex @ saveLeads w_ex scored_ex)"
    by simp
  moreover have "saveLeads w_ex scored_ex = [Insert scored_ex]"
    by (simp add: saveLeads_def scored_ex_def leads_ex_def w_ex_def ebind_def get_prop_def
        nullish_def obj_get_def)
  ultimately show ?thesis by simp
qed

text \<open>
  C6, as the spec states it: the caller gets a session id at once, before any scraping,
  and the stages run afterwards. This fails: in the example run the answer has neither
  a \<^verbatim>\<open>sessionId\<close> nor a \<^verbatim>\<open>session_id\<close>; it carries the three scored leads, and it is
  given after the scrape run has been started, polled three times and its dataset
  fetched, the three leads scored and the batch inserted.
\<close>

theorem answer_after_sourcing_without_session_id:
  "moduleInit cfg_ex = Inr ()
   \<and> POST cfg_ex w_ex (Inr rq_apollo) =
     (Response 200
        [(''status'', JStr ''success''),
         (''data'', JObj [(''leads'', JArr (map JObj scored_ex)), (''count'', JNum 3),
                         (''method'', JStr ''apollo''),
                         (''timestamp'', JStr ''2025-01-01T00:01:00.000Z'')])],
      [Fetch ApifyRun, Sleep 2000, Fetch ApifyStatus, Sleep 2000, Fetch ApifyStatus,
       Sleep 2000, Fetch ApifyStatus, Fetch ApifyDataset,
       ChatCompletion 0, ChatCompletion 1, ConsoleError ''ICP scoring error:'',
       ChatCompletion 2, ConsoleError ''ICP scoring error:'',
       Insert scored_ex])
   \<and> outcome (POST cfg_ex w_ex (Inr rq_apollo)) = JStr ''success''
   \<and> obj_get (body (fst (POST cfg_ex w_ex (Inr rq_apollo)))) ''sessionId'' = JUndefined
   \<and> obj_get (body (fst (POST cfg_ex w_ex (Inr rq_apollo)))) ''session_id'' = JUndefined"
  by (simp add: moduleInit_cfg_ex POST_w_ex_run outcome_def obj_get_def sourcing_ex_def scoring_ex_def)

theorem answer_has_no_session_id_witness:
  "outcome (POST cfg_ex w_ex (Inr rq_apollo)) = JStr ''success''
   \<and> obj_get (body (fst (POST cfg_ex w_ex (Inr rq_apollo)))) ''sessionId'' = JUndefined
   \<and> (\<exists>sourced t leads scoring.
         searchApolloLeads cfg_ex w_ex = (Inr sourced, t)
       \<and> length sourced = 3
       \<and> Fetch ApifyRun \<in> set t
       \<and> (leads, scoring) = scoreLeads w_ex 0 sourced
       \<and> length leads = 3
       \<and> ChatCompletion 0 \<in> set scoring \<and> ChatCompletion 1 \<in> set scoring
       \<and> ChatCompletion 2 \<in> set scoring
       \<and> POST cfg_ex w_ex (Inr rq_apollo) =
           (Response 200
              [(''status'', JStr ''success''),
               (''data'', JObj [(''leads'', JArr (map JObj leads)),
                               (''count'', JNum 3),
                               (''method'', JStr ''apollo''),
                               (''timestamp'', JStr ''2025-01-01T00:01:00.000Z'')])],
            t @ scoring @ [Insert leads]))"
proof -
  have o: "outcome (POST cfg_ex w_ex (Inr rq_apollo)) = JStr ''success''"
    by (simp add: POST_w_ex_run outcome_def obj_get_def)
  have k: "env_set (OPENAI_API_KEY cfg_ex)" by (simp add: cfg_ex_def env_set_def)
  have ts: "respondedAt w_ex = ''2025-01-01T00:01:00.000Z''" by (simp add: w_ex_def)
  have len3: "length leads_ex = 3" by (simp add: leads_ex_def)
  note T = answer_has_no_session_id [of cfg_ex w_ex "Inr rq_apollo"]
  from T have sid: "obj_get (body (fst (POST cfg_ex w_ex (Inr rq_apollo)))) ''sessionId'' = JUndefined"
    by blast
  from T o obtain b m sourced t leads scoring where
    b: "Inr rq_apollo = (Inr b :: exn + request)" and m: "method b = Some m"
    and s: "(m = ''apollo'' \<and> searchApolloLeads cfg_ex w_ex = (Inr sourced, t))
             \<or> (m = ''google_apify'' \<and> searchGoogleLeads cfg_ex w_ex = (Inr sourced, t))"
    and ls: "(leads, scoring) =
              (if env_set (OPENAI_API_KEY cfg_ex) then scoreLeads w_ex 0 sourced else (sourced, []))"
    and len: "length leads = length sourced"
    and ch: "env_set (OPENAI_API_KEY cfg_ex) \<longrightarrow> (\<forall>i<length sourced. ChatCompletion i \<in> set scoring)"
    and ins: "leads \<noteq> [] \<longrightarrow> (\<exists>log. saveLeads w_ex leads = Insert leads # log)"
    and p: "POST cfg_ex w_ex (Inr rq_apollo) =
              (Response 200
                 [(''status'', JStr ''success''),
                  (''data'', JObj [(''leads'', JArr (map JObj leads)),
                                  (''count'', JNum (int (length leads))),
                                  (''method'', JStr m),
                                  (''timestamp'', JStr (respondedAt w_ex))])],
               t @ scoring @ saveLeads w_ex leads)"
    by blast
  from b m have "m = ''apollo''" by (auto simp: rq_apollo_def)
  with s have s': "searchApolloLeads cfg_ex w_ex = (Inr sourced, t)" by simp
  with searchApolloLeads_w_ex have st: "sourced = leads_ex" "t = sourcing_ex" by simp_all
  then have f: "Fetch ApifyRun \<in> set t" by (simp add: sourcing_ex_def)
  from ls k have ls': "(leads, scoring) = scoreLeads w_ex 0 sourced" by simp
  from len st len3 have l3: "length leads = 3" by simp
  from ch k st len3 have c: "ChatCompletion 0 \<in> set scoring" "ChatCompletion 1 \<in> set scoring"
    "ChatCompletion 2 \<in> set scoring"
    by simp_all
  from ls' st scoreLeads_w_ex have "leads = scored_ex" by simp
  then have "saveLeads w_ex leads = [Insert leads]"
    by (simp add: saveLeads_def scored_ex_def leads_ex_def w_ex_def ebind_def get_prop_def
        nullish_def obj_get_def)
  with p \<open>m = ''apollo''\<close> l3 ts have p': "POST cfg_ex w_ex (Inr rq_apollo) =
           (Response 200
              [(''status'', JStr ''success''),
               (''data'', JObj [(''leads'', JArr (map JObj leads)),
                               (''count'', JNum 3),
                               (''method'', JStr ''apollo''),
                               (''timestamp'', JStr ''2025-01-01T00:01:00.000Z'')])],
            t @ scoring @ [Insert leads])"
    by simp
  from s' st(1) len3 have "length sourced = 3" by simp
  with o sid s' f ls' l3 c p' show ?thesis by blast
qed

end
